theory Spec2Isabelle
  imports Complex_Main
begin

section \<open>Marigold normals pipeline: tensors, padding and unpadding\<close>

text \<open>
  The Python exceptions the pipeline functions can end with. \<open>ValueError\<close> carries the
  message of the \<open>raise\<close> statement; the other constructors are the interpreter's or the
  tensor library's own exceptions.
\<close>

datatype error =
    ValueError string
  | AssertionError
  | ZeroDivisionError
  | RuntimeError
  | IndexError
  | TypeError
  | AttributeError

text \<open>
  A rank-4 tensor \<open>[N, C, H, W]\<close>: its shape and its elements as nested lists (batch,
  channel, row, column). The shape is kept beside the data because an empty axis hides
  the sizes of the axes below it.
\<close>

record 'a tensor4 =
  batch :: nat
  chans :: nat
  height :: nat
  width :: nat
  vals :: "'a list list list list"

definition wf_tensor :: "'a tensor4 \<Rightarrow> bool" where
  "wf_tensor t \<longleftrightarrow>
     length (vals t) = batch t \<and>
     (\<forall>im \<in> set (vals t). length im = chans t \<and>
        (\<forall>pl \<in> set im. length pl = height t \<and>
           (\<forall>row \<in> set pl. length row = width t)))"

subsection \<open>\<open>F.pad(image, (0, pw, 0, ph), mode="replicate")\<close>\<close>

definition pad_row :: "nat \<Rightarrow> 'a list \<Rightarrow> 'a list" where
  "pad_row pw row = row @ replicate pw (last row)"

definition pad_plane :: "nat \<Rightarrow> nat \<Rightarrow> 'a list list \<Rightarrow> 'a list list" where
  "pad_plane pw ph pl = (let rows = map (pad_row pw) pl in rows @ replicate ph (last rows))"

text \<open>
  Replication padding on the right and at the bottom. The tensor library refuses a
  rank-4 input whose channel, height or width axis is empty (only the batch axis may be).
\<close>

definition F_pad_replicate :: "'a tensor4 \<Rightarrow> nat \<Rightarrow> nat \<Rightarrow> error + 'a tensor4" where
  "F_pad_replicate t pw ph =
     (if chans t = 0 \<or> height t = 0 \<or> width t = 0 then Inl RuntimeError
      else Inr (t\<lparr>height := height t + ph, width := width t + pw,
                   vals := map (map (pad_plane pw ph)) (vals t)\<rparr>))"

subsection \<open>\<open>pad_image\<close> and \<open>unpad_image\<close>\<close>

text \<open>
  \<open>ph, pw = -h % align, -w % align\<close>: Python's \<open>%\<close> takes the sign of the divisor, as
  \<open>mod\<close> on \<open>int\<close> does, and raises on a zero divisor. The alignment is a size (the
  pipeline passes its latent reduction factor), modelled as a natural number.
\<close>

definition pad_image :: "'a tensor4 \<Rightarrow> nat \<Rightarrow> error + ('a tensor4 \<times> (int \<times> int))" where
  "pad_image img align =
     (if align = 0 then Inl ZeroDivisionError
      else
        let ph = (- int (height img)) mod int align;
            pw = (- int (width img)) mod int align
        in case F_pad_replicate img (nat pw) (nat ph) of
             Inl e \<Rightarrow> Inl e
           | Inr img' \<Rightarrow> Inr (img', (ph, pw)))"

text \<open>
  The slice \<open>xs[:u]\<close>: \<open>None\<close> keeps everything, a non-negative bound keeps that many
  leading elements, a negative bound drops that many trailing ones.
\<close>

definition slice_to :: "int option \<Rightarrow> 'a list \<Rightarrow> 'a list" where
  "slice_to u xs =
     (case u of
        None \<Rightarrow> xs
      | Some k \<Rightarrow> if 0 \<le> k then take (nat k) xs else take (length xs - nat (- k)) xs)"

definition slice_len :: "int option \<Rightarrow> nat \<Rightarrow> nat" where
  "slice_len u n =
     (case u of
        None \<Rightarrow> n
      | Some k \<Rightarrow> if 0 \<le> k then min (nat k) n else n - nat (- k))"

text \<open>\<open>None if p == 0 else -p\<close>, the upper bound of the slice that removes \<open>p\<close> padded entries.\<close>

definition unpad_bound :: "int \<Rightarrow> int option" where
  "unpad_bound p = (if p = 0 then None else Some (- p))"

definition unpad_image :: "'a tensor4 \<Rightarrow> int \<times> int \<Rightarrow> 'a tensor4" where
  "unpad_image img padding =
     (let (ph, pw) = padding;
          uh = unpad_bound ph;
          uw = unpad_bound pw
      in img\<lparr>height := slice_len uh (height img),
                width := slice_len uw (width img),
                vals := map (map (\<lambda>pl. map (slice_to uw) (slice_to uh pl))) (vals img)\<rparr>)"

text \<open>A small image used to run the padding functions: one \<open>2 \<times> 3\<close> plane.\<close>

definition ex_image :: "int tensor4" where
  "ex_image = \<lparr>batch = 1, chans = 1, height = 2, width = 3, vals = [[[[1, 2, 3], [4, 5, 6]]]]\<rparr>"


section \<open>Resizing\<close>

text \<open>
  \<open>F.interpolate\<close> belongs to the tensor library, not to the pipeline: the resizing
  functions take it as a parameter. It receives the image, the requested \<open>(height, width)\<close>,
  the resampling mode and the antialias flag.
\<close>

type_synonym 'a interpolate =
  "'a tensor4 \<Rightarrow> int \<times> int \<Rightarrow> string \<Rightarrow> bool \<Rightarrow> error + 'a tensor4"

definition resample_modes :: "string list" where
  "resample_modes = [''nearest'', ''nearest-exact'', ''bilinear'', ''bicubic'', ''area'']"

text \<open>
  What the library documents for a rank-4 input: for a well-formed tensor without an
  empty axis, a positive target size and one of the five modes, the result is a
  well-formed tensor of the requested height and width with the same batch and channels.
  Antialiasing exists for the bilinear and bicubic modes only: with the flag set in
  another mode the library raises, so the contract promises nothing there.
\<close>

definition antialias_modes :: "string list" where
  "antialias_modes = [''bilinear'', ''bicubic'']"

definition interpolate_contract :: "'a interpolate \<Rightarrow> bool" where
  "interpolate_contract F \<longleftrightarrow>
     (\<forall>img nh nw mode aa.
        wf_tensor img \<and> 0 < batch img \<and> 0 < chans img \<and> 0 < height img \<and> 0 < width img \<and>
        0 < nh \<and> 0 < nw \<and> mode \<in> set resample_modes \<and>
        (aa \<longrightarrow> mode \<in> set antialias_modes) \<longrightarrow>
        (\<exists>y. F img (nh, nw) mode aa = Inr y \<and> wf_tensor y \<and>
              batch y = batch img \<and> chans y = chans img \<and>
              height y = nat nh \<and> width y = nat nw))"

text \<open>
  \<open>resize_antialias\<close>: the assertion wants \<open>is_aa\<close> to be a \<open>bool\<close> (its default is
  \<open>None\<close>); the rank-4 half of the assertion holds by the type of the image.
\<close>

definition resize_antialias ::
  "'a interpolate \<Rightarrow> 'a tensor4 \<Rightarrow> int \<times> int \<Rightarrow> string \<Rightarrow> bool option \<Rightarrow> error + 'a tensor4"
where
  "resize_antialias F img sz mode is_aa =
     (case is_aa of
        None \<Rightarrow> Inl AssertionError
      | Some aa \<Rightarrow>
          let antialias = (aa \<and> mode \<in> set [''bilinear'', ''bicubic''])
          in F img sz mode antialias)"

definition extreme_aspect_msg :: string where
  "extreme_aspect_msg = ''Extreme aspect ratio of the input image''"

text \<open>
  \<open>resize_to_max_edge\<close>: \<open>//\<close> is floor division, as \<open>div\<close> on \<open>int\<close> is; dividing by a
  zero \<open>max_orig\<close> raises. The message of the \<open>ValueError\<close> is kept without the two
  numbers formatted into it.
\<close>

definition resize_to_max_edge ::
  "'a interpolate \<Rightarrow> 'a tensor4 \<Rightarrow> int \<Rightarrow> string \<Rightarrow> error + 'a tensor4"
where
  "resize_to_max_edge F img max_edge_sz mode =
     (let h = int (height img); w = int (width img);
          max_orig = max h w
      in if max_orig = 0 then Inl ZeroDivisionError
         else
           let new_h = h * max_edge_sz div max_orig;
               new_w = w * max_edge_sz div max_orig
           in if new_h = 0 \<or> new_w = 0 then Inl (ValueError extreme_aspect_msg)
              else resize_antialias F img (new_h, new_w) mode (Some True))"

text \<open>
  One interpolation that meets the contract, to run the resizing functions on: every
  output pixel copies the input pixel at the proportional position (nearest neighbour),
  whatever the mode. As the library does, it refuses the antialias flag outside the
  bilinear and bicubic modes.
\<close>

definition antialias_msg :: string where
  "antialias_msg = ''Anti-alias option is restricted to bilinear and bicubic modes''"

definition nearest_plane :: "nat \<Rightarrow> nat \<Rightarrow> nat \<Rightarrow> nat \<Rightarrow> 'a list list \<Rightarrow> 'a list list" where
  "nearest_plane h w nh nw pl =
     map (\<lambda>i. map (\<lambda>j. pl ! (i * h div nh) ! (j * w div nw)) [0..<nw]) [0..<nh]"

definition F_nearest :: "'a interpolate" where
  "F_nearest img sz mode aa =
     (let (nh, nw) = sz
      in if aa \<and> mode \<notin> set antialias_modes then Inl (ValueError antialias_msg)
         else if nh \<le> 0 \<or> nw \<le> 0 \<or> mode \<notin> set resample_modes \<or>
            batch img = 0 \<or> chans img = 0 \<or> height img = 0 \<or> width img = 0
         then Inl RuntimeError
         else Inr (img\<lparr>height := nat nh, width := nat nw,
                       vals := map (map (nearest_plane (height img) (width img) (nat nh) (nat nw)))
                                 (vals img)\<rparr>))"

text \<open>The spec's example of an extreme aspect ratio: one row of 10000 pixels.\<close>

definition ex_strip :: "int tensor4" where
  "ex_strip = \<lparr>batch = 1, chans = 1, height = 1, width = 10000,
               vals = [[[replicate 10000 0]]]\<rparr>"

section \<open>Normal maps: normalisation and ensembling\<close>

text \<open>
  Tensor elements are real numbers here: the arithmetic of \<open>normalize_normals\<close> and
  \<open>ensemble_normals\<close> is modelled exactly, without floating-point rounding.
\<close>

definition px :: "'a tensor4 \<Rightarrow> nat \<Rightarrow> nat \<Rightarrow> nat \<Rightarrow> nat \<Rightarrow> 'a" where
  "px t n c h w = vals t ! n ! c ! h ! w"

definition build4 ::
  "nat \<Rightarrow> nat \<Rightarrow> nat \<Rightarrow> nat \<Rightarrow> (nat \<Rightarrow> nat \<Rightarrow> nat \<Rightarrow> nat \<Rightarrow> 'a) \<Rightarrow> 'a tensor4" where
  "build4 N C H W f =
     \<lparr>batch = N, chans = C, height = H, width = W,
      vals = map (\<lambda>n. map (\<lambda>c. map (\<lambda>h. map (\<lambda>w. f n c h w) [0..<W]) [0..<H]) [0..<C]) [0..<N]\<rparr>"

text \<open>\<open>torch.norm(normals, dim=1, keepdim=True)\<close> at batch index \<open>n\<close> and pixel \<open>(h, w)\<close>.\<close>

definition norm_dim1 :: "real tensor4 \<Rightarrow> nat \<Rightarrow> nat \<Rightarrow> nat \<Rightarrow> real" where
  "norm_dim1 t n h w = sqrt (\<Sum>c\<leftarrow>[0..<chans t]. (px t n c h w)\<^sup>2)"

definition default_eps :: real where
  "default_eps = 1 / 1000000"

text \<open>\<open>normals /= norm.clamp(min=eps)\<close>, the norm broadcast over the channel axis.\<close>

definition normalize_normals :: "real tensor4 \<Rightarrow> real \<Rightarrow> real tensor4" where
  "normalize_normals normals eps =
     build4 (batch normals) (chans normals) (height normals) (width normals)
       (\<lambda>n c h w. px normals n c h w / max (norm_dim1 normals n h w) eps)"

text \<open>
  \<open>argmax\<close> along an axis: the index of the first maximal value.
\<close>

fun argmax :: "real list \<Rightarrow> nat" where
  "argmax [] = 0"
| "argmax (x # xs) = (if xs = [] \<or> xs ! argmax xs \<le> x then 0 else Suc (argmax xs))"

text \<open>The local tensors of \<open>ensemble_normals\<close>, for an input of shape \<open>[E, 3, H, W]\<close>.\<close>

definition mean_dim0 :: "real tensor4 \<Rightarrow> real tensor4" where
  \<comment> \<open>\<open>normals.mean(dim=0, keepdim=True)\<close>\<close>
  "mean_dim0 normals =
     build4 1 (chans normals) (height normals) (width normals)
       (\<lambda>_ c h w. (\<Sum>e\<leftarrow>[0..<batch normals]. px normals e c h w) / real (batch normals))"

definition mean_normals :: "real tensor4 \<Rightarrow> real tensor4" where
  "mean_normals normals = normalize_normals (mean_dim0 normals) default_eps"

definition sim_cos :: "real tensor4 \<Rightarrow> real tensor4" where
  \<comment> \<open>\<open>(mean_normals * normals).sum(dim=1, keepdim=True)\<close>\<close>
  "sim_cos normals =
     build4 (batch normals) 1 (height normals) (width normals)
       (\<lambda>e _ h w. \<Sum>c\<leftarrow>[0..<chans normals]. px (mean_normals normals) 0 c h w * px normals e c h w)"

definition uncertainty_map :: "real tensor4 \<Rightarrow> real tensor4" where
  \<comment> \<open>\<open>sim_cos.arccos().mean(dim=0, keepdim=True) / np.pi\<close>\<close>
  "uncertainty_map normals =
     build4 1 1 (height normals) (width normals)
       (\<lambda>_ _ h w. (\<Sum>e\<leftarrow>[0..<batch normals]. arccos (px (sim_cos normals) e 0 h w))
                    / real (batch normals) / pi)"

definition closest_indices :: "real tensor4 \<Rightarrow> nat tensor4" where
  \<comment> \<open>\<open>sim_cos.argmax(dim=0, keepdim=True).repeat(1, 3, 1, 1)\<close>\<close>
  "closest_indices normals =
     build4 1 3 (height normals) (width normals)
       (\<lambda>_ _ h w. argmax (map (\<lambda>e. px (sim_cos normals) e 0 h w) [0..<batch normals]))"

definition closest_normals :: "real tensor4 \<Rightarrow> real tensor4" where
  \<comment> \<open>\<open>torch.gather(normals, 0, closest_indices)\<close>\<close>
  "closest_normals normals =
     build4 1 3 (height normals) (width normals)
       (\<lambda>n c h w. px normals (px (closest_indices normals) n c h w) c h w)"

text \<open>
  \<open>ensemble_normals\<close>. The assertions come first, in the source's order. With no sample
  at all (\<open>E = 0\<close>) the mean is a division of zero by zero: \<open>argmax\<close> over the empty axis
  raises for the closest reduction, and the mean reduction returns not-a-number values,
  which a real-valued tensor cannot hold; the model ends there with \<open>FloatNaN\<close>. Beyond
  \<open>[-1, 1]\<close> the floating-point \<open>arccos\<close> is not-a-number too, so the uncertainty map is
  exact only where the similarities stay in that interval.
\<close>

datatype ensemble_stop = Raised error | FloatNaN

definition ensemble_normals ::
  "real tensor4 \<Rightarrow> bool \<Rightarrow> string \<Rightarrow> ensemble_stop + (real tensor4 \<times> real tensor4 option)" where
  "ensemble_normals normals output_uncertainty reduction =
     (if reduction \<notin> set [''closest'', ''mean''] then Inl (Raised AssertionError)
      else if chans normals \<noteq> 3 then Inl (Raised AssertionError)
      else if batch normals = 0
        then (if reduction = ''mean'' then Inl FloatNaN else Inl (Raised IndexError))
      else
        let uncertainty = (if output_uncertainty then Some (uncertainty_map normals) else None)
        in if reduction = ''mean'' then Inr (mean_normals normals, uncertainty)
           else Inr (closest_normals normals, uncertainty))"



text \<open>Three samples at a single pixel: the first is antipodal to the two others.\<close>

definition ex_samples :: "real tensor4" where
  "ex_samples = \<lparr>batch = 3, chans = 3, height = 1, width = 1,
                 vals = [[[[0]], [[0]], [[-1]]], [[[0]], [[0]], [[1]]], [[[0]], [[0]], [[1]]]]\<rparr>"

subsection \<open>Ensembling in floating-point arithmetic\<close>

text \<open>
  Which sample the closest reduction selects depends on how the similarities are
  rounded: two samples whose exact similarities differ can get the same floating-point
  similarity, and then the first one wins. So \<open>ensemble_normals\<close> is modelled a second
  time with the arithmetic of the tensor library as a parameter: the conversion of a
  Python constant to an element, the mean, the norm and the sum along an axis, division,
  multiplication and \<open>arccos\<close>, each returning whatever finite value the library computes.
  Clamping and \<open>argmax\<close> compare values and do not round.
\<close>

record float_ops =
  fconst :: "real \<Rightarrow> real"
  fmean :: "real list \<Rightarrow> real"
  fnorm :: "real list \<Rightarrow> real"
  fsum :: "real list \<Rightarrow> real"
  fdiv :: "real \<Rightarrow> real \<Rightarrow> real"
  fmul :: "real \<Rightarrow> real \<Rightarrow> real"
  farccos :: "real \<Rightarrow> real"

text \<open>Exact arithmetic is one instance.\<close>

definition exact_ops :: float_ops where
  "exact_ops =
     \<lparr>fconst = (\<lambda>x. x),
      fmean = (\<lambda>xs. sum_list xs / real (length xs)),
      fnorm = (\<lambda>xs. sqrt (\<Sum>x\<leftarrow>xs. x\<^sup>2)),
      fsum = sum_list,
      fdiv = (\<lambda>x y. x / y),
      fmul = (\<lambda>x y. x * y),
      farccos = arccos\<rparr>"

definition mean_fp :: "float_ops \<Rightarrow> real tensor4 \<Rightarrow> nat \<Rightarrow> nat \<Rightarrow> nat \<Rightarrow> real" where
  \<comment> \<open>\<open>normals.mean(dim=0, keepdim=True)\<close> at channel \<open>c\<close> and pixel \<open>(h, w)\<close>\<close>
  "mean_fp ops normals c h w = fmean ops (map (\<lambda>e. px normals e c h w) [0..<batch normals])"

definition direction_fp :: "float_ops \<Rightarrow> real tensor4 \<Rightarrow> nat \<Rightarrow> nat \<Rightarrow> nat \<Rightarrow> real" where
  \<comment> \<open>\<open>normalize_normals(mean_normals)\<close>: the mean divided by its norm clamped at \<open>eps\<close>\<close>
  "direction_fp ops normals c h w =
     fdiv ops (mean_fp ops normals c h w)
       (max (fnorm ops (map (\<lambda>c. mean_fp ops normals c h w) [0..<chans normals]))
            (fconst ops default_eps))"

definition similarity_fp :: "float_ops \<Rightarrow> real tensor4 \<Rightarrow> nat \<Rightarrow> nat \<Rightarrow> nat \<Rightarrow> real" where
  \<comment> \<open>\<open>(mean_normals * normals).sum(dim=1, keepdim=True)\<close> at sample \<open>e\<close> and pixel \<open>(h, w)\<close>\<close>
  "similarity_fp ops normals e h w =
     fsum ops (map (\<lambda>c. fmul ops (direction_fp ops normals c h w) (px normals e c h w))
                   [0..<chans normals])"

definition mean_normals_fp :: "float_ops \<Rightarrow> real tensor4 \<Rightarrow> real tensor4" where
  "mean_normals_fp ops normals =
     build4 1 (chans normals) (height normals) (width normals)
       (\<lambda>_ c h w. direction_fp ops normals c h w)"

definition uncertainty_fp :: "float_ops \<Rightarrow> real tensor4 \<Rightarrow> real tensor4" where
  \<comment> \<open>\<open>sim_cos.arccos().mean(dim=0, keepdim=True) / np.pi\<close>\<close>
  "uncertainty_fp ops normals =
     build4 1 1 (height normals) (width normals)
       (\<lambda>_ _ h w. fdiv ops
          (fmean ops (map (\<lambda>e. farccos ops (similarity_fp ops normals e h w))
                          [0..<batch normals]))
          (fconst ops pi))"

definition closest_normals_fp :: "float_ops \<Rightarrow> real tensor4 \<Rightarrow> real tensor4" where
  \<comment> \<open>\<open>torch.gather(normals, 0, sim_cos.argmax(dim=0, keepdim=True).repeat(1, 3, 1, 1))\<close>\<close>
  "closest_normals_fp ops normals =
     build4 1 3 (height normals) (width normals)
       (\<lambda>_ c h w.
          px normals (argmax (map (\<lambda>e. similarity_fp ops normals e h w) [0..<batch normals]))
             c h w)"

definition ensemble_normals_fp ::
  "float_ops \<Rightarrow> real tensor4 \<Rightarrow> bool \<Rightarrow> string \<Rightarrow>
   ensemble_stop + (real tensor4 \<times> real tensor4 option)" where
  "ensemble_normals_fp ops normals output_uncertainty reduction =
     (if reduction \<notin> set [''closest'', ''mean''] then Inl (Raised AssertionError)
      else if chans normals \<noteq> 3 then Inl (Raised AssertionError)
      else if batch normals = 0
        then (if reduction = ''mean'' then Inl FloatNaN else Inl (Raised IndexError))
      else
        let uncertainty = (if output_uncertainty then Some (uncertainty_fp ops normals) else None)
        in if reduction = ''mean'' then Inr (mean_normals_fp ops normals, uncertainty)
           else Inr (closest_normals_fp ops normals, uncertainty))"

text \<open>
  The claim's measure, in its own words: the cosine of the angle between sample \<open>e\<close> and
  the mean of the samples at a pixel (renormalising the mean does not change the angle).
\<close>

definition cosine_to_mean :: "real tensor4 \<Rightarrow> nat \<Rightarrow> nat \<Rightarrow> nat \<Rightarrow> real" where
  "cosine_to_mean t e h w =
     (let mu = (\<lambda>c. (\<Sum>i\<leftarrow>[0..<batch t]. px t i c h w) / real (batch t))
      in (\<Sum>c\<leftarrow>[0..<3]. mu c * px t e c h w)
         / (sqrt (\<Sum>c\<leftarrow>[0..<3]. (mu c)\<^sup>2) * sqrt (\<Sum>c\<leftarrow>[0..<3]. (px t e c h w)\<^sup>2)))"

text \<open>
  An arithmetic that rounds every result to the nearest multiple of a quarter, to see
  rounding change the selection.
\<close>

definition quarter :: "real \<Rightarrow> real" where
  "quarter x = real_of_int \<lfloor>4 * x + 1 / 2\<rfloor> / 4"

definition quarter_ops :: float_ops where
  "quarter_ops =
     \<lparr>fconst = quarter,
      fmean = (\<lambda>xs. quarter (sum_list xs / real (length xs))),
      fnorm = (\<lambda>xs. quarter (sqrt (\<Sum>x\<leftarrow>xs. x\<^sup>2))),
      fsum = (\<lambda>xs. quarter (sum_list xs)),
      fdiv = (\<lambda>x y. quarter (x / y)),
      fmul = (\<lambda>x y. quarter (x * y)),
      farccos = (\<lambda>x. quarter (arccos x))\<rparr>"

text \<open>Two samples at a single pixel that differ by an eighth in one component.\<close>

definition ex_near_tie :: "real tensor4" where
  "ex_near_tie = \<lparr>batch = 2, chans = 3, height = 1, width = 1,
                  vals = [[[[1]], [[0]], [[0]]], [[[1]], [[1 / 8]], [[0]]]]\<rparr>"

text \<open>
  Three samples of different lengths at a single pixel: their mean points along the
  first axis, as the third and shortest sample does.
\<close>

definition ex_unequal :: "real tensor4" where
  "ex_unequal = \<lparr>batch = 3, chans = 3, height = 1, width = 1,
                 vals = [[[[1]], [[0]], [[1]]], [[[1]], [[0]], [[-1]]], [[[1 / 2]], [[0]], [[0]]]]\<rparr>"

section \<open>\<open>encode_prediction\<close>: floating-point values with infinities and not-a-number\<close>

text \<open>
  The input checks of \<open>encode_prediction\<close> ask whether values are finite or not-a-number,
  so the elements are floating-point values here: a finite number, an infinity or
  not-a-number. The result of an operation on finite numbers is what the parameter \<open>rnd\<close>
  makes of the exact result (a rounded number, or an infinity on overflow); the
  statements below hold for every \<open>rnd\<close>.
\<close>

datatype fl = Fin real | PInf | NInf | NaN

fun isnan :: "fl \<Rightarrow> bool" where
  "isnan NaN = True"
| "isnan _ = False"

fun isfinite :: "fl \<Rightarrow> bool" where
  "isfinite (Fin _) = True"
| "isfinite _ = False"

fun fl_neg :: "fl \<Rightarrow> fl" where
  "fl_neg (Fin a) = Fin (- a)"
| "fl_neg PInf = NInf"
| "fl_neg NInf = PInf"
| "fl_neg NaN = NaN"

fun fl_abs :: "fl \<Rightarrow> fl" where
  "fl_abs (Fin a) = Fin \<bar>a\<bar>"
| "fl_abs PInf = PInf"
| "fl_abs NInf = PInf"
| "fl_abs NaN = NaN"

fun fl_add :: "(real \<Rightarrow> fl) \<Rightarrow> fl \<Rightarrow> fl \<Rightarrow> fl" where
  "fl_add rnd NaN _ = NaN"
| "fl_add rnd _ NaN = NaN"
| "fl_add rnd PInf NInf = NaN"
| "fl_add rnd NInf PInf = NaN"
| "fl_add rnd PInf _ = PInf"
| "fl_add rnd _ PInf = PInf"
| "fl_add rnd NInf _ = NInf"
| "fl_add rnd _ NInf = NInf"
| "fl_add rnd (Fin a) (Fin b) = rnd (a + b)"

definition fl_sub :: "(real \<Rightarrow> fl) \<Rightarrow> fl \<Rightarrow> fl \<Rightarrow> fl" where
  "fl_sub rnd x y = fl_add rnd x (fl_neg y)"

text \<open>The sign of a value that is not not-a-number: \<open>-1\<close>, \<open>0\<close> or \<open>1\<close>.\<close>

fun fl_sgn :: "fl \<Rightarrow> real" where
  "fl_sgn (Fin a) = sgn a"
| "fl_sgn PInf = 1"
| "fl_sgn NInf = - 1"
| "fl_sgn NaN = 0"

fun fl_mul :: "(real \<Rightarrow> fl) \<Rightarrow> fl \<Rightarrow> fl \<Rightarrow> fl" where
  "fl_mul rnd NaN _ = NaN"
| "fl_mul rnd _ NaN = NaN"
| "fl_mul rnd (Fin a) (Fin b) = rnd (a * b)"
| "fl_mul rnd x y =
     (let s = fl_sgn x * fl_sgn y
      in if s = 0 then NaN else if 0 < s then PInf else NInf)"

text \<open>Comparison: false as soon as one side is not-a-number.\<close>

fun fl_lt :: "fl \<Rightarrow> fl \<Rightarrow> bool" where
  "fl_lt NaN _ = False"
| "fl_lt _ NaN = False"
| "fl_lt PInf _ = False"
| "fl_lt _ NInf = False"
| "fl_lt NInf _ = True"
| "fl_lt _ PInf = True"
| "fl_lt (Fin a) (Fin b) = (a < b)"

text \<open>The maximum as the tensor library computes it: not-a-number propagates.\<close>

definition fl_max :: "fl \<Rightarrow> fl \<Rightarrow> fl" where
  "fl_max x y = (if isnan x \<or> isnan y then NaN else if fl_lt x y then y else x)"

definition fl_sum :: "(real \<Rightarrow> fl) \<Rightarrow> fl list \<Rightarrow> fl" where
  "fl_sum rnd xs = foldl (fl_add rnd) (Fin 0) xs"

text \<open>\<open>.max()\<close> of all elements; the library raises on an empty tensor.\<close>

definition max_all :: "fl list \<Rightarrow> error + fl" where
  "max_all xs = (case xs of [] \<Rightarrow> Inl RuntimeError | x # ys \<Rightarrow> Inr (foldl fl_max x ys))"

definition elems :: "'a tensor4 \<Rightarrow> 'a list" where
  "elems t = concat (concat (concat (vals t)))"

text \<open>
  \<open>((prediction**2).sum(dim=1) - 1.0).abs()\<close>: one value per batch index and pixel, listed
  in row-major order.
\<close>

definition unit_deviation :: "(real \<Rightarrow> fl) \<Rightarrow> fl tensor4 \<Rightarrow> nat \<Rightarrow> nat \<Rightarrow> nat \<Rightarrow> fl" where
  "unit_deviation rnd t n h w =
     fl_abs (fl_sub rnd (fl_sum rnd (map (\<lambda>c. fl_mul rnd (px t n c h w) (px t n c h w))
                                       [0..<chans t]))
                        (Fin 1))"

definition unit_deviations :: "(real \<Rightarrow> fl) \<Rightarrow> fl tensor4 \<Rightarrow> fl list" where
  "unit_deviations rnd t =
     concat (map (\<lambda>n. concat (map (\<lambda>h. map (\<lambda>w. unit_deviation rnd t n h w) [0..<width t])
                                   [0..<height t]))
                 [0..<batch t])"

definition unit_msg :: string where
  "unit_msg = ''ensure the normals vectors are unit length.''"

definition nan_msg :: string where
  "nan_msg = ''NaN values detected, '' @ unit_msg"

definition nonfinite_msg :: string where
  "nonfinite_msg = ''Non-finite values detected, '' @ unit_msg"

definition nonunit_msg :: string where
  "nonunit_msg = ''Non-unit vectors detected, '' @ unit_msg"

definition negative_z_msg :: string where
  "negative_z_msg =
     ''Negative Z-component detected, ensure the normals vectors are represented in ray-space''"

text \<open>\<open>prediction[:, 2, :, :]\<close> as a list of values, and the in-place update of that channel.\<close>

definition z_values :: "'a tensor4 \<Rightarrow> 'a list" where
  "z_values t = concat (map (\<lambda>im. concat (im ! 2)) (vals t))"

definition map_z :: "('a \<Rightarrow> 'a) \<Rightarrow> 'a tensor4 \<Rightarrow> 'a tensor4" where
  "map_z f t = t\<lparr>vals := map (\<lambda>im. im[2 := map (map f) (im ! 2)]) (vals t)\<rparr>"

text \<open>
  \<open>encode_prediction\<close>, up to the call of \<open>self.encode_image\<close>: the result is the error
  raised by an assertion or a check, or the tensor that is handed to the image encoder
  (an external model). That the argument is a floating-point rank-4 tensor holds by its
  type; \<open>use_full_z_range\<close> may be \<open>None\<close>, which \<open>not\<close> treats as false. In the check of the
  z-component the Python boolean \<open>any()\<close> is compared with \<open>1e-3\<close> as the number 0 or 1.
\<close>

definition encode_prediction ::
  "(real \<Rightarrow> fl) \<Rightarrow> bool option \<Rightarrow> fl tensor4 \<Rightarrow> bool \<Rightarrow> error + fl tensor4" where
  "encode_prediction rnd use_full_z_range prediction check_input =
     (if chans prediction \<noteq> 3 then Inl AssertionError
      else if check_input \<and> list_ex isnan (elems prediction)
        then Inl (ValueError nan_msg)
      else if check_input \<and> list_all isfinite (elems prediction)
        then Inl (ValueError nonfinite_msg)
      else
        case (if check_input then max_all (unit_deviations rnd prediction) else Inr (Fin 1)) of
          Inl e \<Rightarrow> Inl e
        | Inr dev \<Rightarrow>
            if check_input \<and> fl_lt dev (Fin (1 / 1000)) then Inl (ValueError nonunit_msg)
            else if use_full_z_range \<noteq> Some True then
              if check_input \<and>
                 (if list_ex (\<lambda>z. fl_lt z (Fin 0)) (z_values prediction) then 1 else 0 :: real)
                   < 1 / 1000
              then Inl (ValueError negative_z_msg)
              else Inr (map_z (\<lambda>z. fl_sub rnd (fl_mul rnd z (Fin 2)) (Fin 1)) prediction)
            else Inr prediction)"

text \<open>A single-pixel map holding the unit vector \<open>(0, 0, 1)\<close>, all of whose values are finite.\<close>

definition ex_unit_normal :: "fl tensor4" where
  "ex_unit_normal = \<lparr>batch = 1, chans = 3, height = 1, width = 1,
                     vals = [[[[Fin 0]], [[Fin 0]], [[Fin 1]]]]\<rparr>"

text \<open>The same pixel with an infinite z-component.\<close>

definition ex_inf_normal :: "fl tensor4" where
  "ex_inf_normal = \<lparr>batch = 1, chans = 3, height = 1, width = 1,
                    vals = [[[[Fin 0]], [[Fin 0]], [[PInf]]]]\<rparr>"

section \<open>Image canonicalisation\<close>

text \<open>
  Element types of numpy arrays and torch tensors. \<open>OtherDType\<close> stands for the types
  that are neither numbers nor booleans (objects, strings, dates).
\<close>

datatype dtype =
    Bool
  | UInt8 | UInt16 | UInt32 | UInt64
  | Int8 | Int16 | Int32 | Int64
  | Float16 | BFloat16 | Float32 | Float64
  | Complex64 | Complex128
  | OtherDType

definition is_unsigned :: "dtype \<Rightarrow> bool" where
  "is_unsigned d \<longleftrightarrow> d \<in> {UInt8, UInt16, UInt32, UInt64}"

definition is_signed :: "dtype \<Rightarrow> bool" where
  "is_signed d \<longleftrightarrow> d \<in> {Int8, Int16, Int32, Int64}"

definition is_complex :: "dtype \<Rightarrow> bool" where
  "is_complex d \<longleftrightarrow> d \<in> {Complex64, Complex128}"

definition is_floating_point :: "dtype \<Rightarrow> bool" where
  "is_floating_point d \<longleftrightarrow> d \<in> {Float16, BFloat16, Float32, Float64}"

text \<open>\<open>np.iinfo(dtype).max\<close> of an unsigned integer type.\<close>

fun iinfo_max :: "dtype \<Rightarrow> int" where
  "iinfo_max UInt8 = 255"
| "iinfo_max UInt16 = 65535"
| "iinfo_max UInt32 = 4294967295"
| "iinfo_max UInt64 = 18446744073709551615"
| "iinfo_max _ = 0"

text \<open>
  An array or tensor of any rank: element type, shape, and the element at each index
  (indices within the shape; the values are real numbers, exact).
\<close>

record array =
  dtype :: dtype
  shape :: "nat list"
  elem :: "nat list \<Rightarrow> real"

text \<open>
  The image argument of the pipeline. A PIL image is given by the array that
  \<open>np.array(image)\<close> makes of it, of shape \<open>[H, W]\<close> or \<open>[H, W, C]\<close>.
\<close>

datatype image_arg = PILImage array | NdArray array | Tensor array | OtherObject

definition unsqueeze0 :: "array \<Rightarrow> array" where
  \<comment> \<open>\<open>image.unsqueeze(0)\<close>\<close>
  "unsqueeze0 a = a\<lparr>shape := 1 # shape a, elem := (\<lambda>idx. elem a (tl idx))\<rparr>"

definition repeat_array :: "nat list \<Rightarrow> array \<Rightarrow> array" where
  \<comment> \<open>\<open>image.repeat(*reps)\<close>, as many factors as axes\<close>
  "repeat_array reps a =
     a\<lparr>shape := map2 (*) reps (shape a),
       elem := (\<lambda>idx. elem a (map2 (\<lambda>i n. i mod n) idx (shape a)))\<rparr>"

definition permute :: "nat list \<Rightarrow> array \<Rightarrow> array" where
  \<comment> \<open>\<open>image.permute(*perm)\<close>: axis \<open>d\<close> of the result is axis \<open>perm ! d\<close> of the input\<close>
  "permute perm a =
     a\<lparr>shape := map (\<lambda>p. shape a ! p) perm,
       elem := (\<lambda>idx. elem a (map (\<lambda>k. idx ! length (takeWhile (\<lambda>p. p \<noteq> k) perm))
                                 [0..<length perm]))\<rparr>"

definition signed_msg :: string where
  "signed_msg = ''Input image dtype cannot be a signed integer.''"

definition complex_msg :: string where
  "complex_msg = ''Input image dtype cannot be complex.''"

definition boolean_msg :: string where
  "boolean_msg = ''Input image dtype cannot be boolean.''"

definition unsupported_dtype_msg :: string where
  "unsupported_dtype_msg = ''Image dtype is not supported.''"

definition channels_msg :: string where
  "channels_msg = ''Input image is not 1- or 3-channel''"

definition rank_msg :: string where
  "rank_msg = ''Input image is not a 2-, 3-, or 4-dimensional tensor.''"

text \<open>
  The first half of \<open>load_image_canonical\<close>: a numpy array (or the array of a PIL image)
  is checked and turned into a tensor; unsigned integers become \<open>float32\<close> and report
  their type's maximum. \<open>torch.from_numpy\<close> raises \<open>TypeError\<close> on an element type it does
  not know.
\<close>

definition from_numpy_checked :: "array \<Rightarrow> error + (array \<times> int option)" where
  "from_numpy_checked a =
     (if is_signed (dtype a) then Inl (ValueError signed_msg)
      else if is_complex (dtype a) then Inl (ValueError complex_msg)
      else if dtype a = Bool then Inl (ValueError boolean_msg)
      else if is_unsigned (dtype a)
        then Inr (a\<lparr>dtype := Float32\<rparr>, Some (iinfo_max (dtype a)))
      else if dtype a \<in> {Float16, Float32, Float64} then Inr (a, None)
      else Inl TypeError)"

text \<open>The second half: the branches on the rank of the tensor.\<close>

definition canonical_rank :: "array \<Rightarrow> error + array" where
  "canonical_rank a =
     (if length (shape a) = 2
        then Inr (repeat_array [1, 3, 1, 1] (unsqueeze0 (unsqueeze0 a)))
      else if length (shape a) = 3 then
        let a1 = (if shape a ! 2 \<in> {1, 3} then permute [2, 0, 1] a else a);
            a2 = (if shape a1 ! 0 = 1 then repeat_array [3, 1, 1] a1 else a1)
        in if shape a2 ! 0 \<noteq> 3 then Inl (ValueError channels_msg)
           else Inr (unsqueeze0 a2)
      else if length (shape a) \<noteq> 4 then Inl (ValueError rank_msg)
      else Inr a)"

text \<open>
  \<open>load_image_canonical\<close>. An object that is neither an image, an array nor a tensor
  has no \<open>dim()\<close>: the interpreter raises \<open>AttributeError\<close>.
\<close>

definition load_image_canonical :: "image_arg \<Rightarrow> error + (array \<times> int option)" where
  "load_image_canonical img =
     (case (case img of
              PILImage a \<Rightarrow> from_numpy_checked a
            | NdArray a \<Rightarrow> from_numpy_checked a
            | Tensor a \<Rightarrow> Inr (a, None)
            | OtherObject \<Rightarrow> Inl AttributeError) of
        Inl e \<Rightarrow> Inl e
      | Inr (a, input_dtype_max) \<Rightarrow>
          (case (if \<not> is_floating_point (dtype a) \<and> input_dtype_max = None
                 then if dtype a \<noteq> UInt8 then Inl (ValueError unsupported_dtype_msg)
                      else Inr (Some 255)
                 else Inr input_dtype_max) of
             Inl e \<Rightarrow> Inl e
           | Inr input_dtype_max' \<Rightarrow>
               (case canonical_rank a of
                  Inl e \<Rightarrow> Inl e
                | Inr a' \<Rightarrow> Inr (a', input_dtype_max'))))"

text \<open>Inputs to run the canonicaliser on.\<close>

definition ex_rgb_u8 :: array where
  \<comment> \<open>an 8-bit \<open>2 \<times> 2\<close> RGB image, channels last\<close>
  "ex_rgb_u8 = \<lparr>dtype = UInt8, shape = [2, 2, 3], elem = (\<lambda>idx. 128)\<rparr>"

definition ex_five_channels :: array where
  \<comment> \<open>a batched float tensor with five channels\<close>
  "ex_five_channels = \<lparr>dtype = Float32, shape = [1, 5, 2, 2], elem = (\<lambda>idx. 0)\<rparr>"

definition ex_gray_u8 :: array where
  \<comment> \<open>an 8-bit \<open>2 \<times> 2\<close> grayscale tensor\<close>
  "ex_gray_u8 = \<lparr>dtype = UInt8, shape = [2, 2], elem = (\<lambda>idx. 128)\<rparr>"

text \<open>The array behind an image argument, when it has one.\<close>

fun input_array :: "image_arg \<Rightarrow> array option" where
  "input_array (PILImage a) = Some a"
| "input_array (NdArray a) = Some a"
| "input_array (Tensor a) = Some a"
| "input_array OtherObject = None"

section \<open>\<open>check_inputs\<close>\<close>

text \<open>
  What \<open>check_inputs\<close> reads of the pipeline object: the latent reduction factor, fixed
  to 8 by the constructor, the number of latent channels of the VAE, and the device the
  pipeline runs on.
\<close>

definition latent_size_scale :: int where
  "latent_size_scale = 8"

record pipeline =
  latent_space_size :: int
  execution_device :: string
  pipe_dtype :: dtype
  default_denoising_steps :: "int option"
  default_processing_resolution :: "int option"

text \<open>
  The optional arguments, with the values of a wrong type they can be given: a
  keyword dictionary, the precomputed latent (known by its shape) and the random
  generator or list of generators (known by their devices).
\<close>

datatype 'v kwargs_arg = NoKwargs | KwargsDict "(string \<times> 'v) list" | KwargsNotDict

datatype latent_arg = NoLatent | LatentTensor "nat list" | LatentNotTensor

datatype generator_arg =
  NoGenerator | Generator string | GeneratorList "string list" | GeneratorOther

text \<open>
  \<open>H, W = image.shape[-2:]\<close> for an array or tensor (unpacking fewer than two values is
  a \<open>ValueError\<close>), \<open>W, H = image.size\<close> for a PIL image; with the number of images.
  The messages are the source's, without the backquotes and the formatted values.
\<close>

definition unpack_msg :: string where
  "unpack_msg = ''not enough values to unpack (expected 2)''"

definition image_dim_msg :: string where
  "image_dim_msg = ''image has unsupported dimension or shape''"

definition image_type_msg :: string where
  "image_type_msg = ''Unsupported image type''"

definition shape_image_checks :: "nat list \<Rightarrow> error + (int \<times> int \<times> int)" where
  "shape_image_checks s =
     (if length s < 2 then Inl (ValueError unpack_msg)
      else
        let H = int (s ! (length s - 2)); W = int (s ! (length s - 1))
        in if length s \<notin> {2, 3, 4} then Inl (ValueError image_dim_msg)
           else Inr (H, W, if length s = 4 then int (s ! 0) else 1))"

definition image_checks :: "image_arg \<Rightarrow> error + (int \<times> int \<times> int)" where
  "image_checks img =
     (case img of
        NdArray a \<Rightarrow> shape_image_checks (shape a)
      | Tensor a \<Rightarrow> shape_image_checks (shape a)
      | PILImage a \<Rightarrow>
          (case shape a of
             h # w # _ \<Rightarrow> Inr (int h, int w, 1)
           | _ \<Rightarrow> Inr (0, 0, 1))
      | OtherObject \<Rightarrow> Inl (ValueError image_type_msg))"

definition latent_type_msg :: string where
  "latent_type_msg = ''input_latent must be a torch.FloatTensor.''"

definition latent_dim_msg :: string where
  "latent_dim_msg = ''input_latent has unsupported dimensions or shape''"

definition latent_shape_msg :: string where
  "latent_shape_msg = ''input_latent has unexpected shape''"

text \<open>
  The checks of the precomputed latent. The test of its rank is the source's
  \<open>if not input_latent.dim() != 4\<close>, which holds when the rank is 4.
\<close>

definition latent_checks ::
  "pipeline \<Rightarrow> latent_arg \<Rightarrow> int \<Rightarrow> int \<Rightarrow> int \<Rightarrow> int \<Rightarrow> int \<Rightarrow> error + unit" where
  "latent_checks self input_latent processing_resolution ensemble_size H W num_images =
     (case input_latent of
        NoLatent \<Rightarrow> Inr ()
      | LatentNotTensor \<Rightarrow> Inl (ValueError latent_type_msg)
      | LatentTensor s \<Rightarrow>
          if \<not> (length s \<noteq> 4) then Inl (ValueError latent_dim_msg)
          else
            case (if processing_resolution > 0 then
                    let max_orig = max H W
                    in if max_orig = 0 then Inl ZeroDivisionError
                       else
                         let new_H = H * processing_resolution div max_orig;
                             new_W = W * processing_resolution div max_orig
                         in if new_H = 0 \<or> new_W = 0 then Inl (ValueError extreme_aspect_msg)
                            else Inr (new_W, new_H)
                  else Inr (W, H)) of
              Inl e \<Rightarrow> Inl e
            | Inr (W', H') \<Rightarrow>
                let w = (W' + latent_size_scale - 1) div latent_size_scale;
                    h = (H' + latent_size_scale - 1) div latent_size_scale;
                    shape_expected = [num_images * ensemble_size, latent_space_size self, h, w]
                in if map int s \<noteq> shape_expected then Inl (ValueError latent_shape_msg)
                   else Inr ())"

definition generator_checks :: "pipeline \<Rightarrow> generator_arg \<Rightarrow> int \<Rightarrow> int \<Rightarrow> error + unit" where
  "generator_checks self generator num_images ensemble_size =
     (case generator of
        NoGenerator \<Rightarrow> Inr ()
      | Generator dev \<Rightarrow>
          if dev \<noteq> execution_device self
          then Inl (ValueError ''generator device differs from the pipeline's device.'')
          else Inr ()
      | GeneratorList devs \<Rightarrow>
          if int (length devs) \<noteq> num_images * ensemble_size
          then Inl (ValueError
            ''The number generators must match the total number of ensemble members for all input images.'')
          else if \<not> list_all (\<lambda>d. d = execution_device self) devs
          then Inl (ValueError
            ''At least one of the generator devices differs from the pipeline's device.'')
          else Inr ()
      | GeneratorOther \<Rightarrow> Inl (ValueError ''Unsupported generator type''))"

text \<open>
  \<open>check_inputs\<close>, check by check in the source's order. The warning for an ensemble of
  size 2 is logged and changes nothing.
\<close>

definition check_inputs ::
  "pipeline \<Rightarrow> image_arg \<Rightarrow> int option \<Rightarrow> int \<Rightarrow> int option \<Rightarrow> string \<Rightarrow> string \<Rightarrow> int \<Rightarrow>
   'a kwargs_arg \<Rightarrow> latent_arg \<Rightarrow> generator_arg \<Rightarrow> string \<Rightarrow> 'b kwargs_arg \<Rightarrow> error + unit"
where
  "check_inputs self img num_inference_steps ensemble_size processing_resolution
     resample_method_input resample_method_output batch_size ensembling_kwargs
     input_latent generator output_prediction_format output_visualization_kwargs =
     (case num_inference_steps of
        None \<Rightarrow> Inl (ValueError
          ''num_inference_steps is not specified and could not be resolved from the model config.'')
      | Some steps \<Rightarrow>
     if steps < 1 then Inl (ValueError ''num_inference_steps must be positive.'')
     else if ensemble_size < 1 then Inl (ValueError ''ensemble_size must be positive.'')
     else
     case processing_resolution of
        None \<Rightarrow> Inl (ValueError
          ''processing_resolution is not specified and could not be resolved from the model config.'')
      | Some res \<Rightarrow>
     if res < 0 then Inl (ValueError ''processing_resolution must be non-negative'')
     else if res mod latent_size_scale \<noteq> 0
       then Inl (ValueError ''processing_resolution must be a multiple of 8.'')
     else if resample_method_input \<notin> set resample_modes
       then Inl (ValueError ''resample_method_input takes string values compatible with PIL library'')
     else if resample_method_output \<notin> set resample_modes
       then Inl (ValueError ''resample_method_output takes string values compatible with PIL library'')
     else if batch_size < 1 then Inl (ValueError ''batch_size must be positive.'')
     else if output_prediction_format \<notin> set [''pt'', ''np'']
       then Inl (ValueError ''output_prediction_format must be one of pt or np.'')
     else if input_latent \<noteq> NoLatent \<and> generator \<noteq> NoGenerator
       then Inl (ValueError ''input_latent and generator cannot be used together.'')
     else if ensembling_kwargs = KwargsNotDict
       then Inl (ValueError ''ensembling_kwargs must be a dictionary.'')
     else if output_visualization_kwargs = KwargsNotDict
       then Inl (ValueError ''output_visualization_kwargs must be a dictionary.'')
     else
     case image_checks img of
        Inl e \<Rightarrow> Inl e
      | Inr (H, W, num_images) \<Rightarrow>
     case latent_checks self input_latent res ensemble_size H W num_images of
        Inl e \<Rightarrow> Inl e
      | Inr _ \<Rightarrow> generator_checks self generator num_images ensemble_size)"

text \<open>
  A call with valid settings: one \<open>64 \<times> 96\<close> RGB tensor, processing resolution 64, so
  that the image is scaled to \<open>42 \<times> 64\<close> and the expected latent shape is \<open>(1, 4, 6, 8)\<close>.
\<close>

definition ex_pipeline :: pipeline where
  "ex_pipeline = \<lparr>latent_space_size = 4, execution_device = ''cpu'', pipe_dtype = Float32,
                  default_denoising_steps = Some 4, default_processing_resolution = Some 768\<rparr>"

definition ex_image_64x96 :: array where
  "ex_image_64x96 = \<lparr>dtype = Float32, shape = [1, 3, 64, 96], elem = (\<lambda>idx. 0)\<rparr>"

definition ex_check_inputs :: "latent_arg \<Rightarrow> error + unit" where
  "ex_check_inputs input_latent =
     check_inputs ex_pipeline (Tensor ex_image_64x96) (Some 4) 1 (Some 64) ''bilinear'' ''bilinear'' 1
       (NoKwargs :: string kwargs_arg) input_latent NoGenerator ''np'' (NoKwargs :: bool kwargs_arg)"

section \<open>The pipeline call, up to the first use of the image encoder\<close>

text \<open>
  The models the pipeline works with. The tokenizer and the text encoder are used
  together, by \<open>encode_empty_text\<close>.
\<close>

datatype collaborator = TextEncoder | VaeEncoder | UNet | Scheduler | VaeDecoder

text \<open>
  The state a call changes: the collaborators invoked so far, in order, and whether
  \<open>self.empty_text_embedding\<close> has been computed (it is \<open>None\<close> until the first call).
\<close>

record call_state =
  invoked :: "collaborator list"
  embedding_cached :: bool

text \<open>The arguments of \<open>__call__\<close> that the modelled part reads.\<close>

record call_args =
  image_in :: image_arg
  num_inference_steps :: "int option"
  ensemble_size :: int
  processing_resolution :: "int option"
  resample_method_input :: string
  resample_method_output :: string
  batch_size :: int
  check_input :: bool
  ensembling_kwargs :: "string kwargs_arg"
  input_latent :: latent_arg
  generator :: generator_arg
  output_prediction_format :: string
  output_visualization_kwargs :: "bool kwargs_arg"

text \<open>All indices of a shape, in row-major order.\<close>

fun all_indices :: "nat list \<Rightarrow> nat list list" where
  "all_indices [] = [[]]"
| "all_indices (n # ns) = concat (map (\<lambda>i. map ((#) i) (all_indices ns)) [0..<n])"

definition range_msg :: string where
  "range_msg = ''Input image data is partially outside of the [-1,1] range.''"

text \<open>
  \<open>check_image_values_range\<close>: \<open>min()\<close> and \<open>max()\<close> raise on a tensor without elements;
  the warning for data within \<open>[0, 1]\<close> is logged and changes nothing.
\<close>

definition check_image_values_range :: "array \<Rightarrow> error + unit" where
  "check_image_values_range a =
     (if \<not> is_floating_point (dtype a) then Inl AssertionError
      else
        let values = map (elem a) (all_indices (shape a))
        in if values = [] then Inl RuntimeError
           else
             let val_min = Min (set values); val_max = Max (set values)
             in if val_min < - 1 \<or> val_max > 1 then Inl (ValueError range_msg)
                else Inr ())"

text \<open>A rank-4 array as a tensor with its elements listed.\<close>

definition to_tensor4 :: "array \<Rightarrow> real tensor4" where
  "to_tensor4 a =
     build4 (shape a ! 0) (shape a ! 1) (shape a ! 2) (shape a ! 3)
       (\<lambda>n c h w. elem a [n, c, h, w])"

text \<open>Step 0 and step 1 of \<open>__call__\<close>: the defaults are resolved, then \<open>check_inputs\<close> runs.\<close>

definition resolve :: "'a option \<Rightarrow> 'a option \<Rightarrow> 'a option" where
  "resolve given fallback = (case given of None \<Rightarrow> fallback | Some v \<Rightarrow> Some v)"

definition call_check_inputs :: "pipeline \<Rightarrow> call_args \<Rightarrow> error + unit" where
  "call_check_inputs self args =
     check_inputs self (image_in args)
       (resolve (num_inference_steps args) (default_denoising_steps self))
       (ensemble_size args)
       (resolve (processing_resolution args) (default_processing_resolution self))
       (resample_method_input args) (resample_method_output args) (batch_size args)
       (ensembling_kwargs args) (input_latent args) (generator args)
       (output_prediction_format args) (output_visualization_kwargs args)"

text \<open>
  Step 3 of \<open>__call__\<close>, the preprocessing of the image: canonical form, the pipeline's
  element type, rescaling from the source range or the range check, resizing to the
  processing resolution, padding. It returns the padded image, the padding record and
  the original resolution.
\<close>

definition preprocess ::
  "real interpolate \<Rightarrow> pipeline \<Rightarrow> call_args \<Rightarrow> int \<Rightarrow>
   error + (real tensor4 \<times> (int \<times> int) \<times> (nat \<times> nat))"
where
  "preprocess F self args res =
     (case load_image_canonical (image_in args) of
        Inl e \<Rightarrow> Inl e
      | Inr (loaded, input_dtype_max) \<Rightarrow>
          let img = loaded\<lparr>dtype := pipe_dtype self\<rparr>;
              original_resolution = (shape img ! 2, shape img ! 3)
          in case (case input_dtype_max of
                     Some mx \<Rightarrow> Inr (img\<lparr>elem := (\<lambda>idx. elem img idx * (2 / real_of_int mx) - 1)\<rparr>)
                   | None \<Rightarrow>
                       if check_input args
                       then (case check_image_values_range img of
                               Inl e \<Rightarrow> Inl e
                             | Inr _ \<Rightarrow> Inr img)
                       else Inr img) of
               Inl e \<Rightarrow> Inl e
             | Inr img' \<Rightarrow>
                 (case (if res > 0
                        then resize_to_max_edge F (to_tensor4 img') res (resample_method_input args)
                        else Inr (to_tensor4 img')) of
                    Inl e \<Rightarrow> Inl e
                  | Inr resized \<Rightarrow>
                      (case pad_image resized (nat latent_size_scale) of
                         Inl e \<Rightarrow> Inl e
                       | Inr (padded, padding) \<Rightarrow> Inr (padded, padding, original_resolution))))"

text \<open>
  \<open>__call__\<close> from its start to the first invocation of the VAE encoder in
  \<open>prepare_latent\<close>: \<open>check_inputs\<close> (step 1), the empty text embedding, computed by the
  text encoder unless it is cached (step 2), the preprocessing (step 3), and the
  assertion of \<open>encode_image\<close> on the first batch (step 4; concatenating the encodings of
  no batch at all raises). Steps 5 to 7 come after that point. When \<open>check_inputs\<close> has
  passed, the processing resolution is set.
\<close>

definition call_to_first_encode ::
  "real interpolate \<Rightarrow> pipeline \<Rightarrow> call_state \<Rightarrow> call_args \<Rightarrow>
   call_state \<times> (error + (real tensor4 \<times> (int \<times> int) \<times> (nat \<times> nat)))"
where
  "call_to_first_encode F self st args =
     (case call_check_inputs self args of
        Inl e \<Rightarrow> (st, Inl e)
      | Inr _ \<Rightarrow>
          let res = (case resolve (processing_resolution args) (default_processing_resolution self) of
                       Some r \<Rightarrow> r | None \<Rightarrow> 0);
              st1 = (if embedding_cached st then st
                     else st\<lparr>invoked := invoked st @ [TextEncoder], embedding_cached := True\<rparr>)
          in case preprocess F self args res of
               Inl e \<Rightarrow> (st1, Inl e)
             | Inr (padded, padding, original_resolution) \<Rightarrow>
                 if batch padded = 0 then (st1, Inl RuntimeError)
                 else if chans padded \<noteq> 3 then (st1, Inl AssertionError)
                 else (st1\<lparr>invoked := invoked st1 @ [VaeEncoder]\<rparr>,
                       Inr (padded, padding, original_resolution)))"

text \<open>
  Calls to run: a float image with a value outside \<open>[-1, 1]\<close>, an image of signed
  integers, and a call with an ensemble size of 0; each on a pipeline that has not
  computed its empty text embedding yet.
\<close>

definition ex_args :: "image_arg \<Rightarrow> int \<Rightarrow> call_args" where
  "ex_args img ens =
     \<lparr>image_in = img, num_inference_steps = Some 4, ensemble_size = ens,
      processing_resolution = Some 0, resample_method_input = ''bilinear'',
      resample_method_output = ''bilinear'', batch_size = 1, check_input = True,
      ensembling_kwargs = NoKwargs, input_latent = NoLatent, generator = NoGenerator,
      output_prediction_format = ''np'', output_visualization_kwargs = NoKwargs\<rparr>"

definition ex_out_of_range :: array where
  "ex_out_of_range = \<lparr>dtype = Float32, shape = [1, 3, 1, 1], elem = (\<lambda>idx. 2)\<rparr>"

definition ex_signed :: array where
  "ex_signed = \<lparr>dtype = Int32, shape = [2, 2], elem = (\<lambda>idx. 0)\<rparr>"

definition ex_fresh :: call_state where
  "ex_fresh = \<lparr>invoked = [], embedding_cached = False\<rparr>"

section \<open>Properties of padding\<close>

lemma pad_amount_bounds:
  assumes "0 < a"
  shows "0 \<le> (- int n) mod int a" and "(- int n) mod int a < int a"
  using assms by simp_all

lemma slice_to_append_replicate:
  "slice_to (unpad_bound (int k)) (xs @ replicate k y) = xs"
  by (simp add: slice_to_def unpad_bound_def)

lemma slice_len_add:
  "slice_len (unpad_bound (int k)) (n + k) = n"
  by (simp add: slice_len_def unpad_bound_def)

lemma unpad_pad_plane:
  "map (slice_to (unpad_bound (int pw)))
     (slice_to (unpad_bound (int ph)) (pad_plane pw ph pl)) = pl"
proof -
  have rows: "slice_to (unpad_bound (int ph)) (pad_plane pw ph pl)
        = map (pad_row pw) pl"
    unfolding pad_plane_def Let_def by (rule slice_to_append_replicate)
  have "map (slice_to (unpad_bound (int pw))) (map (pad_row pw) pl) = pl"
    unfolding pad_row_def map_map comp_def slice_to_append_replicate by simp
  with rows show ?thesis by simp
qed

lemma unpad_pad_comp:
  "(\<lambda>pl. map (slice_to (unpad_bound (int pw))) (slice_to (unpad_bound (int ph)) pl))
     \<circ> pad_plane pw ph = id"
  by (simp add: fun_eq_iff unpad_pad_plane)

lemma unpad_image_F_pad:
  assumes "F_pad_replicate x pw ph = Inr y"
  shows "unpad_image y (int ph, int pw) = x"
proof -
  from assms have y: "y = x\<lparr>height := height x + ph, width := width x + pw,
                             vals := map (map (pad_plane pw ph)) (vals x)\<rparr>"
    by (simp add: F_pad_replicate_def split: if_splits)
  show ?thesis
    unfolding unpad_image_def y Let_def prod.case
    by (simp add: slice_len_add unpad_pad_comp)
qed

lemma pad_image_Inr:
  assumes "pad_image x a = Inr (y, p)"
  shows "0 < a"
    and "p = ((- int (height x)) mod int a, (- int (width x)) mod int a)"
    and "F_pad_replicate x (nat (snd p)) (nat (fst p)) = Inr y"
  using assms by (auto simp: pad_image_def Let_def split: if_splits sum.splits)

lemma pad_image_Inl:
  assumes "pad_image x a = Inl e"
  shows "a = 0 \<or> chans x = 0 \<or> height x = 0 \<or> width x = 0"
  using assms
  by (auto simp: pad_image_def F_pad_replicate_def Let_def split: if_splits sum.splits)

text \<open>
  C7. Whenever \<open>pad_image\<close> returns, \<open>unpad_image\<close> with the returned padding record gives
  back the input tensor exactly; \<open>pad_image\<close> fails to return only for a zero alignment or
  an input with an empty channel, height or width axis.
\<close>

theorem unpad_pad_roundtrip:
  "case pad_image x a of
     Inl e \<Rightarrow> a = 0 \<or> chans x = 0 \<or> height x = 0 \<or> width x = 0
   | Inr (y, p) \<Rightarrow> unpad_image y p = x"
proof (cases "pad_image x a")
  case (Inl e)
  then show ?thesis by (simp add: pad_image_Inl)
next
  case (Inr r)
  obtain y p where r: "r = (y, p)" by (cases r)
  note facts = pad_image_Inr [OF Inr [unfolded r]]
  have "0 \<le> fst p" "0 \<le> snd p"
    using facts(1) by (simp_all add: facts(2))
  then have "p = (int (nat (fst p)), int (nat (snd p)))" by simp
  then have "unpad_image y p = x"
    using unpad_image_F_pad [OF facts(3)] by simp
  then show ?thesis by (simp add: Inr r)
qed

lemma pad_amount_dvd:
  assumes "0 < a"
  shows "a dvd n + nat ((- int n) mod int a)"
proof -
  have "int a dvd int n + (- int n) mod int a"
    by (metis add.commute add.right_inverse dvd_0_right dvd_eq_mod_eq_0 mod_add_left_eq)
  moreover have "int (n + nat ((- int n) mod int a)) = int n + (- int n) mod int a"
    using assms by simp
  ultimately show ?thesis
    by (metis int_dvd_int_iff)
qed

lemma pad_amount_least:
  assumes "0 < a" "a dvd k" "n \<le> k"
  shows "n + nat ((- int n) mod int a) \<le> k"
proof -
  let ?m = "n + nat ((- int n) mod int a)"
  have d: "a dvd ?m" by (rule pad_amount_dvd [OF assms(1)])
  have "nat ((- int n) mod int a) < a"
    using assms(1) by (simp add: nat_less_iff)
  then have lt: "?m < k + a" using assms(3) by linarith
  show ?thesis
  proof (rule ccontr)
    assume "\<not> ?m \<le> k"
    then have "k < ?m" by simp
    moreover have "a dvd ?m - k" using d assms(2) by (rule dvd_diff_nat)
    ultimately have "a \<le> ?m - k" by (simp add: dvd_imp_le)
    with lt \<open>k < ?m\<close> show False by linarith
  qed
qed

lemma pad_amount_aligned:
  assumes "a dvd n"
  shows "(- int n) mod int a = 0"
  using assms by (simp add: dvd_eq_mod_eq_0 [symmetric])

lemma wf_tensor_nth:
  assumes "wf_tensor x" "n < batch x" "c < chans x" "i < height x"
  shows "length (vals x) = batch x" and "length (vals x ! n) = chans x"
    and "length (vals x ! n ! c) = height x" and "length (vals x ! n ! c ! i) = width x"
proof -
  show l0: "length (vals x) = batch x"
    using assms(1) by (simp add: wf_tensor_def)
  with assms(2) have m0: "vals x ! n \<in> set (vals x)" by simp
  with assms(1) show l1: "length (vals x ! n) = chans x"
    by (simp add: wf_tensor_def)
  with assms(3) have m1: "vals x ! n ! c \<in> set (vals x ! n)" by simp
  with assms(1) m0 show l2: "length (vals x ! n ! c) = height x"
    by (simp add: wf_tensor_def)
  with assms(4) have m2: "vals x ! n ! c ! i \<in> set (vals x ! n ! c)" by simp
  with assms(1) m0 m1 show "length (vals x ! n ! c ! i) = width x"
    by (simp add: wf_tensor_def)
qed

lemma wf_pad_plane:
  assumes "length pl = h" "0 < h" "\<forall>row \<in> set pl. length row = w"
  shows "length (pad_plane pw ph pl) = h + ph"
    and "\<forall>row \<in> set (pad_plane pw ph pl). length row = w + pw"
proof -
  let ?rows = "map (pad_row pw) pl"
  have rows: "\<forall>row \<in> set ?rows. length row = w + pw"
    using assms(3) by (simp add: pad_row_def)
  have "?rows \<noteq> []" using assms(1,2) by auto
  then have "last ?rows \<in> set ?rows" by (rule last_in_set)
  with rows have "length (last ?rows) = w + pw" by blast
  with rows show "\<forall>row \<in> set (pad_plane pw ph pl). length row = w + pw"
    by (auto simp: pad_plane_def Let_def)
  show "length (pad_plane pw ph pl) = h + ph"
    using assms(1) by (simp add: pad_plane_def Let_def)
qed

lemma wf_tensor_F_pad:
  assumes "wf_tensor x" "F_pad_replicate x pw ph = Inr y"
  shows "wf_tensor y"
proof -
  from assms(2) have h: "0 < height x"
    and y: "y = x\<lparr>height := height x + ph, width := width x + pw,
                     vals := map (map (pad_plane pw ph)) (vals x)\<rparr>"
    by (auto simp: F_pad_replicate_def split: if_splits)
  show ?thesis
    using assms(1) wf_pad_plane [OF _ h, of _ "width x" pw ph]
    unfolding wf_tensor_def y by simp blast
qed

lemma nth_pad_plane:
  assumes "i < length pl" "j < length (pl ! i)"
  shows "pad_plane pw ph pl ! i ! j = pl ! i ! j"
  using assms by (simp add: pad_plane_def pad_row_def Let_def nth_append)

lemma F_pad_content:
  assumes "wf_tensor x" "F_pad_replicate x pw ph = Inr y"
    and "n < batch x" "c < chans x" "i < height x" "j < width x"
  shows "vals y ! n ! c ! i ! j = vals x ! n ! c ! i ! j"
proof -
  from assms(2) have y: "vals y = map (map (pad_plane pw ph)) (vals x)"
    by (auto simp: F_pad_replicate_def split: if_splits)
  note len = wf_tensor_nth [OF assms(1,3,4,5)]
  show ?thesis
    using assms(3-6) by (simp add: y len nth_pad_plane)
qed


text \<open>
  C10. For a well-formed image with non-empty channel, height and width axes and a positive
  alignment, \<open>pad_image\<close> returns a well-formed tensor with the same batch and channel
  sizes whose height and width are the least multiples of the alignment that are not
  below the input's; the padding record \<open>(ph, pw)\<close> lies in \<open>[0, align)\<close> and is exactly
  the growth of each axis; the input occupies the top-left region unchanged; an axis that
  is already aligned gets padding 0.
\<close>

theorem pad_image_aligned:
  assumes "wf_tensor x" "0 < a" "0 < chans x" "0 < height x" "0 < width x"
  shows "\<exists>y ph pw. pad_image x a = Inr (y, (ph, pw)) \<and>
           wf_tensor y \<and> batch y = batch x \<and> chans y = chans x \<and>
           a dvd height y \<and> height x \<le> height y \<and>
           (\<forall>m. a dvd m \<and> height x \<le> m \<longrightarrow> height y \<le> m) \<and>
           a dvd width y \<and> width x \<le> width y \<and>
           (\<forall>m. a dvd m \<and> width x \<le> m \<longrightarrow> width y \<le> m) \<and>
           0 \<le> ph \<and> ph < int a \<and> 0 \<le> pw \<and> pw < int a \<and>
           int (height y) = int (height x) + ph \<and> int (width y) = int (width x) + pw \<and>
           (\<forall>n < batch x. \<forall>c < chans x. \<forall>i < height x. \<forall>j < width x.
              vals y ! n ! c ! i ! j = vals x ! n ! c ! i ! j) \<and>
           (a dvd height x \<longrightarrow> ph = 0) \<and> (a dvd width x \<longrightarrow> pw = 0)"
proof -
  define ph where "ph = (- int (height x)) mod int a"
  define pw where "pw = (- int (width x)) mod int a"
  define y where "y = x\<lparr>height := height x + nat ph, width := width x + nat pw,
                          vals := map (map (pad_plane (nat pw) (nat ph))) (vals x)\<rparr>"
  have F: "F_pad_replicate x (nat pw) (nat ph) = Inr y"
    using assms(3-5) by (simp add: F_pad_replicate_def y_def)
  have P: "pad_image x a = Inr (y, (ph, pw))"
    using assms(2) F by (simp add: pad_image_def Let_def ph_def pw_def)
  have hy: "height y = height x + nat ph" and wy: "width y = width x + nat pw"
    and bay: "batch y = batch x" and cy: "chans y = chans x"
    by (simp_all add: y_def)
  have b: "0 \<le> ph" "ph < int a" "0 \<le> pw" "pw < int a"
    unfolding ph_def pw_def by (simp_all add: pad_amount_bounds [OF assms(2)])
  have W: "wf_tensor y" by (rule wf_tensor_F_pad [OF assms(1) F])
  have dh: "a dvd height y" unfolding hy ph_def by (rule pad_amount_dvd [OF assms(2)])
  have dw: "a dvd width y" unfolding wy pw_def by (rule pad_amount_dvd [OF assms(2)])
  have lh: "\<forall>m. a dvd m \<and> height x \<le> m \<longrightarrow> height y \<le> m"
    unfolding hy ph_def using pad_amount_least [OF assms(2)] by blast
  have lw: "\<forall>m. a dvd m \<and> width x \<le> m \<longrightarrow> width y \<le> m"
    unfolding wy pw_def using pad_amount_least [OF assms(2)] by blast
  have ih: "int (height y) = int (height x) + ph" using b(1) by (simp add: hy)
  have iw: "int (width y) = int (width x) + pw" using b(3) by (simp add: wy)
  have C: "\<forall>n < batch x. \<forall>c < chans x. \<forall>i < height x. \<forall>j < width x.
              vals y ! n ! c ! i ! j = vals x ! n ! c ! i ! j"
    using F_pad_content [OF assms(1) F] by blast
  have ah: "a dvd height x \<longrightarrow> ph = 0" unfolding ph_def by (simp add: pad_amount_aligned)
  have aw: "a dvd width x \<longrightarrow> pw = 0" unfolding pw_def by (simp add: pad_amount_aligned)
  have "height x \<le> height y" "width x \<le> width y" by (simp_all add: hy wy)
  with P W bay cy dh dw lh lw b ih iw C ah aw show ?thesis by blast
qed

theorem pad_image_aligned_witness:
  "pad_image ex_image 4 =
     Inr (\<lparr>batch = 1, chans = 1, height = 4, width = 4,
           vals = [[[[1, 2, 3, 3], [4, 5, 6, 6], [4, 5, 6, 6], [4, 5, 6, 6]]]]\<rparr>, (2, 1))"
proof -
  have "wf_tensor ex_image" by (simp add: wf_tensor_def ex_image_def)
  moreover have "0 < chans ex_image" "0 < height ex_image" "0 < width ex_image"
    by (simp_all add: ex_image_def)
  ultimately obtain y ph pw where "pad_image ex_image 4 = Inr (y, (ph, pw))"
    using pad_image_aligned [of ex_image 4] by auto
  then show ?thesis
    by (simp add: pad_image_def F_pad_replicate_def pad_plane_def pad_row_def ex_image_def Let_def
        eval_nat_numeral split: if_splits)
qed

section \<open>Properties of resizing\<close>

lemma F_nearest_contract: "interpolate_contract (F_nearest :: 'a interpolate)"
  unfolding interpolate_contract_def
proof (intro allI impI)
  fix img :: "'a tensor4" and nh nw :: int and mode :: string and aa :: bool
  assume a: "wf_tensor img \<and> 0 < batch img \<and> 0 < chans img \<and> 0 < height img \<and> 0 < width img \<and>
        0 < nh \<and> 0 < nw \<and> mode \<in> set resample_modes \<and>
        (aa \<longrightarrow> mode \<in> set antialias_modes)"
  let ?y = "img\<lparr>height := nat nh, width := nat nw,
                 vals := map (map (nearest_plane (height img) (width img) (nat nh) (nat nw)))
                                 (vals img)\<rparr>"
  have F: "F_nearest img (nh, nw) mode aa = Inr ?y"
    using a by (auto simp add: F_nearest_def)
  have "wf_tensor ?y"
    using a by (simp add: wf_tensor_def nearest_plane_def)
  with F show "\<exists>y. F_nearest img (nh, nw) mode aa = Inr y \<and> wf_tensor y \<and>
              batch y = batch img \<and> chans y = chans img \<and>
              height y = nat nh \<and> width y = nat nw"
    by simp
qed

text \<open>
  Without the guard of \<open>resize_antialias\<close> the interpolation would be asked to antialias
  in every mode, which it refuses outside \<open>antialias_modes\<close>.
\<close>

lemma F_nearest_refuses_antialias:
  "mode \<notin> set antialias_modes \<Longrightarrow> F_nearest img sz mode True = Inl (ValueError antialias_msg)"
  by (simp add: F_nearest_def split: prod.splits)

lemma resize_antialias_guard:
  "resize_antialias F img sz mode (Some True) = F img sz mode (mode \<in> set antialias_modes)"
  by (simp add: resize_antialias_def antialias_modes_def)

lemma scaled_edge_max:
  fixes h w m :: int
  assumes "0 < h" "0 < w" "0 \<le> m"
  shows "max (h * m div max h w) (w * m div max h w) = m"
proof (cases "w \<le> h")
  case True
  then have mx: "max h w = h" by simp
  have "h * m div h = m" using assms(1) by simp
  moreover have "w * m div h \<le> h * m div h"
    using True assms by (intro zdiv_mono1 mult_right_mono) simp_all
  ultimately show ?thesis by (simp add: mx)
next
  case False
  then have mx: "max h w = w" by simp
  have "w * m div w = m" using assms(2) by simp
  moreover have "h * m div w \<le> w * m div w"
    using False assms by (intro zdiv_mono1 mult_right_mono) simp_all
  ultimately show ?thesis by (simp add: mx)
qed

text \<open>
  C8. For a non-empty image, a non-negative target edge, any of the five resampling
  modes and an interpolation that meets the library's contract (which covers the
  antialias flag in the bilinear and bicubic modes only): \<open>resize_to_max_edge\<close> raises the
  extreme-aspect-ratio \<open>ValueError\<close> when the scaled height or the scaled width is zero,
  and otherwise returns a tensor of the scaled size, whose larger spatial dimension is the
  target edge exactly.
\<close>

theorem resize_to_max_edge_spec:
  fixes F :: "'a interpolate"
  assumes "interpolate_contract F" and "wf_tensor img"
    and "0 < batch img" "0 < chans img" "0 < height img" "0 < width img"
    and "0 \<le> m" and "mode \<in> set resample_modes"
  shows "let new_h = int (height img) * m div int (max (height img) (width img));
             new_w = int (width img) * m div int (max (height img) (width img))
         in if new_h = 0 \<or> new_w = 0
            then resize_to_max_edge F img m mode = Inl (ValueError extreme_aspect_msg)
            else (\<exists>y. resize_to_max_edge F img m mode = Inr y \<and> wf_tensor y \<and>
                      batch y = batch img \<and> chans y = chans img \<and>
                      int (height y) = new_h \<and> int (width y) = new_w \<and>
                      int (max (height y) (width y)) = m)"
proof -
  define h w where "h = int (height img)" and "w = int (width img)"
  define new_h new_w where "new_h = h * m div max h w" and "new_w = w * m div max h w"
  have pos: "0 < h" "0 < w" using assms(5,6) by (simp_all add: h_def w_def)
  have mx: "int (max (height img) (width img)) = max h w" by (simp add: h_def w_def)
  have nn: "0 \<le> new_h" "0 \<le> new_w"
    using pos assms(7) by (simp_all add: new_h_def new_w_def pos_imp_zdiv_nonneg_iff)
  have R: "resize_to_max_edge F img m mode =
             (if new_h = 0 \<or> new_w = 0 then Inl (ValueError extreme_aspect_msg)
              else F img (new_h, new_w) mode (mode \<in> set antialias_modes))"
    using pos unfolding resize_to_max_edge_def resize_antialias_guard Let_def
      h_def [symmetric] w_def [symmetric] new_h_def [symmetric] new_w_def [symmetric]
    by auto
  show ?thesis
  proof (cases "new_h = 0 \<or> new_w = 0")
    case True
    then show ?thesis
      unfolding Let_def mx h_def [symmetric] w_def [symmetric]
        new_h_def [symmetric] new_w_def [symmetric] R by simp
  next
    case False
    with nn have p: "0 < new_h" "0 < new_w" by simp_all
    from assms(1) [unfolded interpolate_contract_def, rule_format,
        of img new_h new_w mode "mode \<in> set antialias_modes"]
      assms(2-6,8) p
    obtain y where y: "F img (new_h, new_w) mode (mode \<in> set antialias_modes) = Inr y"
      "wf_tensor y" "batch y = batch img" "chans y = chans img"
      "height y = nat new_h" "width y = nat new_w"
      by blast
    have "max new_h new_w = m"
      unfolding new_h_def new_w_def by (rule scaled_edge_max [OF pos assms(7)])
    then have "int (max (height y) (width y)) = m"
      using p by (simp add: y(5,6))
    with False y p show ?thesis
      unfolding Let_def mx h_def [symmetric] w_def [symmetric]
        new_h_def [symmetric] new_w_def [symmetric] R by simp
  qed
qed

text \<open>
  The spec's \<open>1 \<times> 10000\<close> strip raises; a \<open>2 \<times> 3\<close> image is resized to \<open>4 \<times> 6\<close> in the
  bilinear mode and also in the nearest mode, where the interpolation would refuse the
  antialias flag that \<open>resize_to_max_edge\<close> passes to \<open>resize_antialias\<close>.
\<close>

theorem resize_to_max_edge_spec_witness:
  "resize_to_max_edge F_nearest ex_strip 4 ''bilinear'' = Inl (ValueError extreme_aspect_msg) \<and>
   (\<exists>y. resize_to_max_edge F_nearest ex_image 6 ''bilinear'' = Inr y \<and>
        height y = 4 \<and> width y = 6) \<and>
   (\<exists>y. resize_to_max_edge F_nearest ex_image 6 ''nearest'' = Inr y \<and>
        height y = 4 \<and> width y = 6) \<and>
   F_nearest ex_image (4, 6) ''nearest'' True = Inl (ValueError antialias_msg)"
proof -
  have wf: "wf_tensor ex_strip" "wf_tensor ex_image"
    by (simp_all add: wf_tensor_def ex_strip_def ex_image_def)
  have m: "''bilinear'' \<in> set resample_modes" "''nearest'' \<in> set resample_modes"
    by (simp_all add: resample_modes_def)
  have 1: "resize_to_max_edge F_nearest ex_strip 4 ''bilinear'' = Inl (ValueError extreme_aspect_msg)"
    using resize_to_max_edge_spec [OF F_nearest_contract wf(1) _ _ _ _ _ m(1), of 4]
    by (simp add: ex_strip_def)
  have 2: "\<exists>y. resize_to_max_edge F_nearest ex_image 6 ''bilinear'' = Inr y \<and>
        height y = 4 \<and> width y = 6"
    using resize_to_max_edge_spec [OF F_nearest_contract wf(2) _ _ _ _ _ m(1), of 6]
    by (auto simp add: ex_image_def Let_def)
  have 3: "\<exists>y. resize_to_max_edge F_nearest ex_image 6 ''nearest'' = Inr y \<and>
        height y = 4 \<and> width y = 6"
    using resize_to_max_edge_spec [OF F_nearest_contract wf(2) _ _ _ _ _ m(2), of 6]
    by (auto simp add: ex_image_def Let_def)
  have 4: "F_nearest ex_image (4, 6) ''nearest'' True = Inl (ValueError antialias_msg)"
    by (rule F_nearest_refuses_antialias) (simp add: antialias_modes_def)
  from 1 2 3 4 show ?thesis by simp
qed

section \<open>Properties of normalisation and ensembling\<close>

lemma build4_simps [simp]:
  "batch (build4 N C H W f) = N" "chans (build4 N C H W f) = C"
  "height (build4 N C H W f) = H" "width (build4 N C H W f) = W"
  by (simp_all add: build4_def)

lemma wf_build4: "wf_tensor (build4 N C H W f)"
  by (simp add: wf_tensor_def build4_def)

lemma px_build4:
  assumes "n < N" "c < C" "h < H" "w < W"
  shows "px (build4 N C H W f) n c h w = f n c h w"
  using assms by (simp add: px_def build4_def)

lemma argmax_less: "xs \<noteq> [] \<Longrightarrow> argmax xs < length xs"
  by (induction xs) auto

lemma argmax_max: "i < length xs \<Longrightarrow> xs ! i \<le> xs ! argmax xs"
proof (induction xs arbitrary: i)
  case Nil
  then show ?case by simp
next
  case (Cons x xs)
  show ?case
  proof (cases i)
    case 0
    then show ?thesis by auto
  next
    case (Suc j)
    with Cons.prems have j: "j < length xs" by simp
    then have "xs ! j \<le> xs ! argmax xs" by (rule Cons.IH)
    with Suc j show ?thesis by auto
  qed
qed


lemma upt_small: "[0..<1] = [0]" "[0..<2] = [0, 1]" "[0..<3] = [0, 1, 2]"
  by (simp_all add: upt_conv_Cons)






lemma norm_dim1_build4:
  assumes "n < N" "h < H" "w < W"
  shows "norm_dim1 (build4 N C H W f) n h w = sqrt (\<Sum>c\<leftarrow>[0..<C]. (f n c h w)\<^sup>2)"
proof -
  have eq: "map (\<lambda>c. (px (build4 N C H W f) n c h w)\<^sup>2) [0..<C] = map (\<lambda>c. (f n c h w)\<^sup>2) [0..<C]"
    using assms by (intro map_cong refl) (simp add: px_build4)
  show ?thesis unfolding norm_dim1_def build4_simps eq by (rule refl)
qed

lemma norm_dim1_nonneg: "0 \<le> norm_dim1 t n h w"
  unfolding norm_dim1_def by (intro real_sqrt_ge_zero sum_list_nonneg) auto









subsection \<open>The closest reduction in floating-point arithmetic\<close>

lemma argmax_first: "i < argmax xs \<Longrightarrow> xs ! i < xs ! argmax xs"
proof (induction xs arbitrary: i)
  case Nil
  then show ?case by simp
next
  case (Cons x xs)
  from Cons.prems have nz: "argmax (x # xs) = Suc (argmax xs)" and gt: "\<not> xs ! argmax xs \<le> x"
    by (auto split: if_splits)
  show ?case
  proof (cases i)
    case 0
    with gt nz show ?thesis by simp
  next
    case (Suc j)
    with Cons.prems nz have "j < argmax xs" by simp
    then have "xs ! j < xs ! argmax xs" by (rule Cons.IH)
    with Suc nz show ?thesis by simp
  qed
qed

lemma closest_fp_pixel:
  fixes ops :: float_ops
  assumes "0 < batch t" "h < height t" "w < width t"
  defines "k \<equiv> argmax (map (\<lambda>e. similarity_fp ops t e h w) [0..<batch t])"
  shows "k < batch t"
    and "\<forall>c<3. px (closest_normals_fp ops t) 0 c h w = px t k c h w"
    and "\<forall>e<batch t. similarity_fp ops t e h w \<le> similarity_fp ops t k h w"
    and "\<forall>e<k. similarity_fp ops t e h w < similarity_fp ops t k h w"
proof -
  let ?xs = "map (\<lambda>e. similarity_fp ops t e h w) [0..<batch t]"
  have ne: "?xs \<noteq> []" using assms(1) by simp
  from argmax_less [OF ne] show k: "k < batch t" by (simp add: k_def)
  show "\<forall>c<3. px (closest_normals_fp ops t) 0 c h w = px t k c h w"
    using assms(2,3) by (simp add: closest_normals_fp_def px_build4 k_def)
  show "\<forall>e<batch t. similarity_fp ops t e h w \<le> similarity_fp ops t k h w"
  proof (intro allI impI)
    fix e assume e: "e < batch t"
    then have "?xs ! e \<le> ?xs ! argmax ?xs" by (intro argmax_max) simp
    with e k show "similarity_fp ops t e h w \<le> similarity_fp ops t k h w"
      by (simp add: k_def)
  qed
  show "\<forall>e<k. similarity_fp ops t e h w < similarity_fp ops t k h w"
  proof (intro allI impI)
    fix e assume e: "e < k"
    then have "?xs ! e < ?xs ! argmax ?xs" unfolding k_def by (rule argmax_first)
    with e k show "similarity_fp ops t e h w < similarity_fp ops t k h w"
      by (simp add: k_def)
  qed
qed

lemma similarity_fp_explicit:
  assumes "chans t = 3"
  shows "similarity_fp ops t e h w =
    fsum ops
      [fmul ops
         (fdiv ops (fmean ops (map (\<lambda>i. px t i 0 h w) [0..<batch t]))
            (max (fnorm ops [fmean ops (map (\<lambda>i. px t i 0 h w) [0..<batch t]),
                             fmean ops (map (\<lambda>i. px t i 1 h w) [0..<batch t]),
                             fmean ops (map (\<lambda>i. px t i 2 h w) [0..<batch t])])
                 (fconst ops (1 / 1000000))))
         (px t e 0 h w),
       fmul ops
         (fdiv ops (fmean ops (map (\<lambda>i. px t i 1 h w) [0..<batch t]))
            (max (fnorm ops [fmean ops (map (\<lambda>i. px t i 0 h w) [0..<batch t]),
                             fmean ops (map (\<lambda>i. px t i 1 h w) [0..<batch t]),
                             fmean ops (map (\<lambda>i. px t i 2 h w) [0..<batch t])])
                 (fconst ops (1 / 1000000))))
         (px t e 1 h w),
       fmul ops
         (fdiv ops (fmean ops (map (\<lambda>i. px t i 2 h w) [0..<batch t]))
            (max (fnorm ops [fmean ops (map (\<lambda>i. px t i 0 h w) [0..<batch t]),
                             fmean ops (map (\<lambda>i. px t i 1 h w) [0..<batch t]),
                             fmean ops (map (\<lambda>i. px t i 2 h w) [0..<batch t])])
                 (fconst ops (1 / 1000000))))
         (px t e 2 h w)]"
  by (simp add: similarity_fp_def direction_fp_def mean_fp_def assms upt_small default_eps_def)

lemma ensemble_normals_fp_closest:
  assumes "chans t = 3" "0 < batch t"
  shows "ensemble_normals_fp ops t ou ''closest'' =
           Inr (closest_normals_fp ops t, if ou then Some (uncertainty_fp ops t) else None)"
  using assms by (simp add: ensemble_normals_fp_def)

lemma sum_list_upt3: "(\<Sum>c\<leftarrow>[0..<3]. f c) = f 0 + f 1 + (f 2 :: real)"
  by (simp add: upt_small)

lemma similarity_exact:
  assumes "chans t = 3"
  shows "similarity_fp exact_ops t e h w =
    (\<Sum>c\<leftarrow>[0..<3]. ((\<Sum>i\<leftarrow>[0..<batch t]. px t i c h w) / real (batch t)) * px t e c h w)
    / max (sqrt (\<Sum>c\<leftarrow>[0..<3]. ((\<Sum>i\<leftarrow>[0..<batch t]. px t i c h w) / real (batch t))\<^sup>2))
          default_eps"
  by (simp add: similarity_fp_def direction_fp_def mean_fp_def exact_ops_def assms upt_small
      add_divide_distrib)

lemma similarity_exact_cosine:
  assumes "chans t = 3"
    and unit: "sqrt (\<Sum>c\<leftarrow>[0..<3]. (px t e c h w)\<^sup>2) = 1"
    and big: "default_eps \<le> sqrt (\<Sum>c\<leftarrow>[0..<3]. ((\<Sum>i\<leftarrow>[0..<batch t]. px t i c h w) / real (batch t))\<^sup>2)"
  shows "similarity_fp exact_ops t e h w = cosine_to_mean t e h w"
proof -
  from big have "max (sqrt (\<Sum>c\<leftarrow>[0..<3]. ((\<Sum>i\<leftarrow>[0..<batch t]. px t i c h w) / real (batch t))\<^sup>2))
          default_eps = sqrt (\<Sum>c\<leftarrow>[0..<3]. ((\<Sum>i\<leftarrow>[0..<batch t]. px t i c h w) / real (batch t))\<^sup>2)"
    by simp
  then show ?thesis
    unfolding similarity_exact [OF assms(1)] cosine_to_mean_def Let_def unit by simp
qed

text \<open>
  C9, as the code has it. For an ensemble of \<open>E \<ge> 1\<close> samples of shape \<open>[E, 3, H, W]\<close> and
  whatever the floating-point arithmetic, the closest reduction returns a \<open>[1, 3, H, W]\<close>
  tensor that at every pixel equals one of the input samples at that pixel in all three
  channels: the first sample (lowest index) whose computed similarity is maximal, where
  the similarity is the sum over the channels of the sample times the direction, the
  direction is the mean over the samples divided by its norm clamped at \<open>1e-6\<close>. In
  exact arithmetic, when the samples at the pixel have unit length and the norm of their
  mean is at least \<open>1e-6\<close>, the selected sample has maximal cosine similarity with the mean
  direction.
\<close>

theorem closest_reduction_selects_sample:
  fixes ops :: float_ops and t :: "real tensor4" and h w :: nat
    and m d :: "nat \<Rightarrow> real" and sim :: "nat \<Rightarrow> real"
  defines "m \<equiv> \<lambda>c. fmean ops (map (\<lambda>i. px t i c h w) [0..<batch t])"
  defines "d \<equiv> \<lambda>c. fdiv ops (m c) (max (fnorm ops [m 0, m 1, m 2]) (fconst ops (1 / 1000000)))"
  defines "sim \<equiv> \<lambda>e. fsum ops [fmul ops (d 0) (px t e 0 h w), fmul ops (d 1) (px t e 1 h w),
                                 fmul ops (d 2) (px t e 2 h w)]"
  assumes "wf_tensor t" "chans t = 3" "0 < batch t" "h < height t" "w < width t"
  shows "(\<exists>pred u k. ensemble_normals_fp ops t ou ''closest'' = Inr (pred, u) \<and>
            wf_tensor pred \<and> batch pred = 1 \<and> chans pred = 3 \<and>
            height pred = height t \<and> width pred = width t \<and> k < batch t \<and>
            (\<forall>c<3. px pred 0 c h w = px t k c h w) \<and>
            (\<forall>e<batch t. sim e \<le> sim k) \<and> (\<forall>e<k. sim e < sim k)) \<and>
         ((\<forall>e<batch t. sqrt (\<Sum>c\<leftarrow>[0..<3]. (px t e c h w)\<^sup>2) = 1) \<and>
          1 / 1000000 \<le> sqrt (\<Sum>c\<leftarrow>[0..<3]. ((\<Sum>i\<leftarrow>[0..<batch t]. px t i c h w) / real (batch t))\<^sup>2)
          \<longrightarrow>
          (\<exists>pred u k. ensemble_normals_fp exact_ops t ou ''closest'' = Inr (pred, u) \<and>
             k < batch t \<and> (\<forall>c<3. px pred 0 c h w = px t k c h w) \<and>
             (\<forall>e<batch t. cosine_to_mean t e h w \<le> cosine_to_mean t k h w)))"
proof (rule conjI)
  have sim: "similarity_fp ops t e h w = sim e" for e
    unfolding sim_def d_def m_def by (rule similarity_fp_explicit [OF assms(5)])
  define k where "k = argmax (map (\<lambda>e. similarity_fp ops t e h w) [0..<batch t])"
  note cl = closest_fp_pixel [OF assms(6,7,8), of ops, folded k_def, unfolded sim]
  have shape: "wf_tensor (closest_normals_fp ops t)" "batch (closest_normals_fp ops t) = 1"
    "chans (closest_normals_fp ops t) = 3" "height (closest_normals_fp ops t) = height t"
    "width (closest_normals_fp ops t) = width t"
    by (simp_all add: closest_normals_fp_def wf_build4)
  from ensemble_normals_fp_closest [OF assms(5,6)] shape cl
  show "\<exists>pred u k. ensemble_normals_fp ops t ou ''closest'' = Inr (pred, u) \<and>
            wf_tensor pred \<and> batch pred = 1 \<and> chans pred = 3 \<and>
            height pred = height t \<and> width pred = width t \<and> k < batch t \<and>
            (\<forall>c<3. px pred 0 c h w = px t k c h w) \<and>
            (\<forall>e<batch t. sim e \<le> sim k) \<and> (\<forall>e<k. sim e < sim k)"
    by blast
next
  show "(\<forall>e<batch t. sqrt (\<Sum>c\<leftarrow>[0..<3]. (px t e c h w)\<^sup>2) = 1) \<and>
          1 / 1000000 \<le> sqrt (\<Sum>c\<leftarrow>[0..<3]. ((\<Sum>i\<leftarrow>[0..<batch t]. px t i c h w) / real (batch t))\<^sup>2)
          \<longrightarrow>
          (\<exists>pred u k. ensemble_normals_fp exact_ops t ou ''closest'' = Inr (pred, u) \<and>
             k < batch t \<and> (\<forall>c<3. px pred 0 c h w = px t k c h w) \<and>
             (\<forall>e<batch t. cosine_to_mean t e h w \<le> cosine_to_mean t k h w))"
  proof (intro impI, elim conjE)
    assume unit: "\<forall>e<batch t. sqrt (\<Sum>c\<leftarrow>[0..<3]. (px t e c h w)\<^sup>2) = 1"
      and big: "1 / 1000000 \<le> sqrt (\<Sum>c\<leftarrow>[0..<3]. ((\<Sum>i\<leftarrow>[0..<batch t]. px t i c h w) / real (batch t))\<^sup>2)"
    have cos: "similarity_fp exact_ops t e h w = cosine_to_mean t e h w" if "e < batch t" for e
      using unit that big
      by (intro similarity_exact_cosine [OF assms(5)]) (simp_all add: default_eps_def)
    define k where "k = argmax (map (\<lambda>e. similarity_fp exact_ops t e h w) [0..<batch t])"
    note cl = closest_fp_pixel [OF assms(6,7,8), of exact_ops, folded k_def]
    have "\<forall>e<batch t. cosine_to_mean t e h w \<le> cosine_to_mean t k h w"
      using cl(1,3) cos by simp
    with ensemble_normals_fp_closest [OF assms(5,6)] cl(1,2)
    show "\<exists>pred u k. ensemble_normals_fp exact_ops t ou ''closest'' = Inr (pred, u) \<and>
             k < batch t \<and> (\<forall>c<3. px pred 0 c h w = px t k c h w) \<and>
             (\<forall>e<batch t. cosine_to_mean t e h w \<le> cosine_to_mean t k h w)"
      by blast
  qed
qed

lemma ex_unequal_px:
  "px ex_unequal 0 0 0 0 = 1" "px ex_unequal 0 (Suc 0) 0 0 = 0" "px ex_unequal 0 2 0 0 = 1"
  "px ex_unequal (Suc 0) 0 0 0 = 1" "px ex_unequal (Suc 0) (Suc 0) 0 0 = 0"
  "px ex_unequal (Suc 0) 2 0 0 = - 1"
  "px ex_unequal 2 0 0 0 = 1 / 2" "px ex_unequal 2 (Suc 0) 0 0 = 0" "px ex_unequal 2 2 0 0 = 0"
  by (simp_all add: px_def ex_unequal_def)

lemma ex_unequal_dims:
  "batch ex_unequal = 3" "chans ex_unequal = 3" "height ex_unequal = 1" "width ex_unequal = 1"
  by (simp_all add: ex_unequal_def)

lemma ex_unequal_mean:
  "mean_fp exact_ops ex_unequal 0 0 0 = 5 / 6"
  "mean_fp exact_ops ex_unequal (Suc 0) 0 0 = 0"
  "mean_fp exact_ops ex_unequal 2 0 0 = 0"
  by (simp_all add: mean_fp_def exact_ops_def ex_unequal_dims upt_small ex_unequal_px)

lemma ex_unequal_direction:
  "direction_fp exact_ops ex_unequal 0 0 0 = 1"
  "direction_fp exact_ops ex_unequal (Suc 0) 0 0 = 0"
  "direction_fp exact_ops ex_unequal 2 0 0 = 0"
proof -
  have n: "fnorm exact_ops (map (\<lambda>c. mean_fp exact_ops ex_unequal c 0 0) [0..<3]) = 5 / 6"
    by (simp add: upt_small ex_unequal_mean) (simp add: exact_ops_def)
  have e: "fconst exact_ops default_eps = 1 / 1000000"
    by (simp add: exact_ops_def default_eps_def)
  show "direction_fp exact_ops ex_unequal 0 0 0 = 1"
    "direction_fp exact_ops ex_unequal (Suc 0) 0 0 = 0"
    "direction_fp exact_ops ex_unequal 2 0 0 = 0"
    unfolding direction_fp_def ex_unequal_dims n e ex_unequal_mean by (simp_all add: exact_ops_def)
qed

lemma ex_unequal_similarity:
  "similarity_fp exact_ops ex_unequal 0 0 0 = 1"
  "similarity_fp exact_ops ex_unequal (Suc 0) 0 0 = 1"
  "similarity_fp exact_ops ex_unequal 2 0 0 = 1 / 2"
  by (simp_all add: similarity_fp_def ex_unequal_dims upt_small ex_unequal_direction ex_unequal_px)
     (simp_all add: exact_ops_def)

lemma ex_unequal_argmax:
  "argmax (map (\<lambda>e. similarity_fp exact_ops ex_unequal e 0 0) [0..<batch ex_unequal]) = 0"
  by (simp add: ex_unequal_dims upt_small ex_unequal_similarity)

lemma ex_unequal_cosines:
  "cosine_to_mean ex_unequal 0 0 0 = 1 / sqrt 2" "cosine_to_mean ex_unequal 2 0 0 = 1"
  by (simp_all add: cosine_to_mean_def ex_unequal_dims upt_small Let_def ex_unequal_px
      real_sqrt_divide)

text \<open>
  The claim as stated fails for samples of different lengths: for \<open>(1, 0, 1)\<close>,
  \<open>(1, 0, -1)\<close> and \<open>(1/2, 0, 0)\<close> the mean direction is \<open>(1, 0, 0)\<close> and the code returns the
  first sample, whose similarity 1 is maximal but whose cosine \<open>1 / sqrt 2\<close> is not: the
  third sample has cosine 1. No sample equal to the output has maximal cosine.
\<close>

theorem closest_reduction_selects_sample_counterexample:
  "\<exists>pred u. ensemble_normals_fp exact_ops ex_unequal False ''closest'' = Inr (pred, u) \<and>
     \<not> (\<exists>k<3. (\<forall>c<3. px pred 0 c 0 0 = px ex_unequal k c 0 0) \<and>
               (\<forall>e<3. cosine_to_mean ex_unequal e 0 0 \<le> cosine_to_mean ex_unequal k 0 0))"
proof -
  let ?pred = "closest_normals_fp exact_ops ex_unequal"
  have R: "ensemble_normals_fp exact_ops ex_unequal False ''closest'' = Inr (?pred, None)"
    using ensemble_normals_fp_closest [of ex_unequal exact_ops False]
    by (simp add: ex_unequal_dims)
  have sel: "\<forall>c<3. px ?pred 0 c 0 0 = px ex_unequal 0 c 0 0"
    using closest_fp_pixel(2) [of ex_unequal 0 0 exact_ops]
    unfolding ex_unequal_argmax by (simp add: ex_unequal_dims)
  then have p0: "px ?pred 0 0 0 0 = 1" and p2: "px ?pred 0 2 0 0 = 1"
    by (simp_all add: ex_unequal_px)
  have lt: "cosine_to_mean ex_unequal 0 0 0 < cosine_to_mean ex_unequal 2 0 0"
    by (simp add: ex_unequal_cosines)
  have "\<not> ((\<forall>c<3. px ?pred 0 c 0 0 = px ex_unequal k c 0 0) \<and>
            (\<forall>e<3. cosine_to_mean ex_unequal e 0 0 \<le> cosine_to_mean ex_unequal k 0 0))"
    if k: "k < 3" for k
  proof -
    from k consider "k = 0" | "k = Suc 0" | "k = 2" by linarith
    then show ?thesis
    proof cases
      case 1
      have "\<not> cosine_to_mean ex_unequal 2 0 0 \<le> cosine_to_mean ex_unequal 0 0 0"
        using lt by simp
      moreover have "(2::nat) < 3" by simp
      ultimately have "\<not> (\<forall>e<3. cosine_to_mean ex_unequal e 0 0 \<le> cosine_to_mean ex_unequal 0 0 0)"
        by blast
      with 1 show ?thesis by blast
    next
      case 2
      have "px ?pred 0 2 0 0 \<noteq> px ex_unequal (Suc 0) 2 0 0"
        by (simp add: p2 ex_unequal_px)
      moreover have "(2::nat) < 3" by simp
      ultimately have "\<not> (\<forall>c<3. px ?pred 0 c 0 0 = px ex_unequal (Suc 0) c 0 0)"
        by blast
      with 2 show ?thesis by blast
    next
      case 3
      have "px ?pred 0 0 0 0 \<noteq> px ex_unequal 2 0 0 0"
        by (simp add: p0 ex_unequal_px)
      moreover have "(0::nat) < 3" by simp
      ultimately have "\<not> (\<forall>c<3. px ?pred 0 c 0 0 = px ex_unequal 2 c 0 0)"
        by blast
      with 3 show ?thesis by blast
    qed
  qed
  with R show ?thesis by blast
qed

lemma quarter_values:
  "quarter 0 = 0" "quarter 1 = 1" "quarter (1 / 16) = 0" "quarter (1 / 1000000) = 0"
  by (simp_all add: quarter_def)

lemma ex_near_tie_px:
  "px ex_near_tie 0 0 0 0 = 1" "px ex_near_tie 0 (Suc 0) 0 0 = 0" "px ex_near_tie 0 2 0 0 = 0"
  "px ex_near_tie (Suc 0) 0 0 0 = 1" "px ex_near_tie (Suc 0) (Suc 0) 0 0 = 1 / 8"
  "px ex_near_tie (Suc 0) 2 0 0 = 0"
  by (simp_all add: px_def ex_near_tie_def)

lemma ex_near_tie_dims:
  "batch ex_near_tie = 2" "chans ex_near_tie = 3" "height ex_near_tie = 1" "width ex_near_tie = 1"
  by (simp_all add: ex_near_tie_def)

lemma ex_near_tie_mean:
  "mean_fp quarter_ops ex_near_tie 0 0 0 = 1"
  "mean_fp quarter_ops ex_near_tie (Suc 0) 0 0 = 0"
  "mean_fp quarter_ops ex_near_tie 2 0 0 = 0"
  by (simp_all add: mean_fp_def quarter_ops_def ex_near_tie_dims upt_small ex_near_tie_px
      quarter_values)

lemma ex_near_tie_direction:
  "direction_fp quarter_ops ex_near_tie 0 0 0 = 1"
  "direction_fp quarter_ops ex_near_tie (Suc 0) 0 0 = 0"
  "direction_fp quarter_ops ex_near_tie 2 0 0 = 0"
proof -
  have n: "fnorm quarter_ops (map (\<lambda>c. mean_fp quarter_ops ex_near_tie c 0 0) [0..<3]) = 1"
    by (simp add: upt_small ex_near_tie_mean) (simp add: quarter_ops_def quarter_values)
  have e: "fconst quarter_ops default_eps = 0"
    by (simp add: quarter_ops_def default_eps_def quarter_values)
  show "direction_fp quarter_ops ex_near_tie 0 0 0 = 1"
    "direction_fp quarter_ops ex_near_tie (Suc 0) 0 0 = 0"
    "direction_fp quarter_ops ex_near_tie 2 0 0 = 0"
    unfolding direction_fp_def ex_near_tie_dims n e ex_near_tie_mean
    by (simp_all add: quarter_ops_def quarter_values)
qed

lemma ex_near_tie_similarity:
  "similarity_fp quarter_ops ex_near_tie 0 0 0 = 1"
  "similarity_fp quarter_ops ex_near_tie (Suc 0) 0 0 = 1"
  by (simp_all add: similarity_fp_def ex_near_tie_dims upt_small ex_near_tie_direction
      ex_near_tie_px)
     (simp_all add: quarter_ops_def quarter_values)

lemma ex_near_tie_exact_similarity:
  "similarity_fp exact_ops ex_near_tie 0 0 0 < similarity_fp exact_ops ex_near_tie (Suc 0) 0 0"
proof -
  define n where "n = max (sqrt (\<Sum>c\<leftarrow>[0..<3].
      ((\<Sum>i\<leftarrow>[0..<batch ex_near_tie]. px ex_near_tie i c 0 0) / real (batch ex_near_tie))\<^sup>2))
      default_eps"
  have "default_eps \<le> n" unfolding n_def by (rule max.cobounded2)
  moreover have "0 < default_eps" by (simp add: default_eps_def)
  ultimately have n: "0 < n" by linarith
  have c: "chans ex_near_tie = 3" by (rule ex_near_tie_dims)
  have a: "similarity_fp exact_ops ex_near_tie 0 0 0 = 1 / n"
    unfolding similarity_exact [OF c] n_def [symmetric]
    by (simp add: ex_near_tie_dims upt_small ex_near_tie_px)
  have b: "similarity_fp exact_ops ex_near_tie (Suc 0) 0 0 = (1 + 1 / 128) / n"
    unfolding similarity_exact [OF c] n_def [symmetric]
    by (simp add: ex_near_tie_dims upt_small ex_near_tie_px)
  have "1 / n < (1 + 1 / 128) / n"
    using n by (intro divide_strict_right_mono) simp_all
  then show ?thesis unfolding a b .
qed

lemma ex_samples_px:
  "px ex_samples 0 0 0 0 = 0" "px ex_samples 0 (Suc 0) 0 0 = 0" "px ex_samples 0 2 0 0 = - 1"
  "px ex_samples (Suc 0) 0 0 0 = 0" "px ex_samples (Suc 0) (Suc 0) 0 0 = 0"
  "px ex_samples (Suc 0) 2 0 0 = 1"
  "px ex_samples 2 0 0 0 = 0" "px ex_samples 2 (Suc 0) 0 0 = 0" "px ex_samples 2 2 0 0 = 1"
  by (simp_all add: px_def ex_samples_def)

lemma ex_samples_unit:
  "\<forall>e<batch ex_samples. sqrt (\<Sum>c\<leftarrow>[0..<3]. (px ex_samples e c 0 0)\<^sup>2) = 1"
proof (intro allI impI)
  fix e assume "e < batch ex_samples"
  then consider "e = 0" | "e = Suc 0" | "e = 2" by (simp add: ex_samples_def) linarith
  then show "sqrt (\<Sum>c\<leftarrow>[0..<3]. (px ex_samples e c 0 0)\<^sup>2) = 1"
    by cases (simp_all add: upt_small ex_samples_px)
qed

lemma ex_samples_mean_norm:
  "1 / 1000000 \<le> sqrt (\<Sum>c\<leftarrow>[0..<3].
      ((\<Sum>i\<leftarrow>[0..<batch ex_samples]. px ex_samples i c 0 0) / real (batch ex_samples))\<^sup>2)"
proof -
  have b: "batch ex_samples = 3" by (simp add: ex_samples_def)
  have "sqrt (\<Sum>c\<leftarrow>[0..<3].
      ((\<Sum>i\<leftarrow>[0..<batch ex_samples]. px ex_samples i c 0 0) / real (batch ex_samples))\<^sup>2) = 1 / 3"
    by (simp add: b upt_small ex_samples_px real_sqrt_divide)
  then show ?thesis by simp
qed

text \<open>
  With every result rounded to a quarter, the samples \<open>(1, 0, 0)\<close> and \<open>(1, 1/8, 0)\<close> get
  the same similarity and the first is returned; in exact arithmetic the second has the
  larger similarity and is returned. For three unit samples in exact arithmetic the
  returned sample has maximal cosine.
\<close>

theorem closest_reduction_selects_sample_witness:
  "(\<exists>pred u. ensemble_normals_fp quarter_ops ex_near_tie False ''closest'' = Inr (pred, u) \<and>
      (\<forall>c<3. px pred 0 c 0 0 = px ex_near_tie 0 c 0 0)) \<and>
   (\<exists>pred u. ensemble_normals_fp exact_ops ex_near_tie False ''closest'' = Inr (pred, u) \<and>
      (\<forall>c<3. px pred 0 c 0 0 = px ex_near_tie 1 c 0 0)) \<and>
   (\<exists>pred u k. ensemble_normals_fp exact_ops ex_samples False ''closest'' = Inr (pred, u) \<and>
      k < 3 \<and> (\<forall>c<3. px pred 0 c 0 0 = px ex_samples k c 0 0) \<and>
      (\<forall>e<3. cosine_to_mean ex_samples e 0 0 \<le> cosine_to_mean ex_samples k 0 0))"
proof -
  have t: "wf_tensor ex_near_tie" "chans ex_near_tie = 3" "0 < batch ex_near_tie"
    "0 < height ex_near_tie" "0 < width ex_near_tie"
    by (simp_all add: wf_tensor_def ex_near_tie_def)
  have s: "wf_tensor ex_samples" "chans ex_samples = 3" "0 < batch ex_samples"
    "0 < height ex_samples" "0 < width ex_samples"
    by (simp_all add: wf_tensor_def ex_samples_def)
  have two: "k = 0 \<or> k = Suc 0" if "k < batch ex_near_tie" for k
    using that by (auto simp: ex_near_tie_dims)
  note Q = closest_reduction_selects_sample [OF t, of quarter_ops False,
      folded similarity_fp_explicit [OF t(2)], THEN conjunct1]
  then obtain pred u k
    where q: "ensemble_normals_fp quarter_ops ex_near_tie False ''closest'' = Inr (pred, u)"
      "k < batch ex_near_tie" "\<forall>c<3. px pred 0 c 0 0 = px ex_near_tie k c 0 0"
      "\<forall>e<k. similarity_fp quarter_ops ex_near_tie e 0 0 < similarity_fp quarter_ops ex_near_tie k 0 0"
    by blast
  have "k = 0"
  proof (rule ccontr)
    assume "k \<noteq> 0"
    with two [OF q(2)] have k: "k = Suc 0" by simp
    with q(4) have "similarity_fp quarter_ops ex_near_tie 0 0 0
        < similarity_fp quarter_ops ex_near_tie (Suc 0) 0 0"
      by simp
    then show False by (simp add: ex_near_tie_similarity)
  qed
  with q have 1: "\<exists>pred u. ensemble_normals_fp quarter_ops ex_near_tie False ''closest'' = Inr (pred, u) \<and>
      (\<forall>c<3. px pred 0 c 0 0 = px ex_near_tie 0 c 0 0)"
    by blast
  note E = closest_reduction_selects_sample [OF t, of exact_ops False,
      folded similarity_fp_explicit [OF t(2)], THEN conjunct1]
  then obtain pred' u' k'
    where e: "ensemble_normals_fp exact_ops ex_near_tie False ''closest'' = Inr (pred', u')"
      "k' < batch ex_near_tie" "\<forall>c<3. px pred' 0 c 0 0 = px ex_near_tie k' c 0 0"
      "\<forall>e<batch ex_near_tie. similarity_fp exact_ops ex_near_tie e 0 0
          \<le> similarity_fp exact_ops ex_near_tie k' 0 0"
    by blast
  have "k' = 1"
  proof (rule ccontr)
    assume "k' \<noteq> 1"
    with two [OF e(2)] have k: "k' = 0" by simp
    have "Suc 0 < batch ex_near_tie" by (simp add: ex_near_tie_dims)
    with e(4) k have "similarity_fp exact_ops ex_near_tie (Suc 0) 0 0
        \<le> similarity_fp exact_ops ex_near_tie 0 0 0"
      by blast
    with ex_near_tie_exact_similarity show False by simp
  qed
  with e have 2: "\<exists>pred u. ensemble_normals_fp exact_ops ex_near_tie False ''closest'' = Inr (pred, u) \<and>
      (\<forall>c<3. px pred 0 c 0 0 = px ex_near_tie 1 c 0 0)"
    by blast
  have b: "batch ex_samples = 3" by (simp add: ex_samples_def)
  from closest_reduction_selects_sample [OF s, of exact_ops False, THEN conjunct2, rule_format,
      OF conjI [OF ex_samples_unit ex_samples_mean_norm]]
  have 3: "\<exists>pred u k. ensemble_normals_fp exact_ops ex_samples False ''closest'' = Inr (pred, u) \<and>
      k < 3 \<and> (\<forall>c<3. px pred 0 c 0 0 = px ex_samples k c 0 0) \<and>
      (\<forall>e<3. cosine_to_mean ex_samples e 0 0 \<le> cosine_to_mean ex_samples k 0 0)"
    unfolding b .
  from 1 2 3 show ?thesis by blast
qed

text \<open>In exact arithmetic the parametrised model is the real-valued one.\<close>

lemma build4_cong:
  assumes "\<And>n c h w. n < N \<Longrightarrow> c < C \<Longrightarrow> h < H \<Longrightarrow> w < W \<Longrightarrow> f n c h w = g n c h w"
  shows "build4 N C H W f = build4 N C H W g"
  using assms by (simp add: build4_def)

lemma exact_ops_sel:
  "fconst exact_ops x = x" "fmean exact_ops xs = sum_list xs / real (length xs)"
  "fnorm exact_ops xs = sqrt (\<Sum>x\<leftarrow>xs. x\<^sup>2)" "fsum exact_ops xs = sum_list xs"
  "fdiv exact_ops x y = x / y" "fmul exact_ops x y = x * y" "farccos exact_ops x = arccos x"
  by (simp_all add: exact_ops_def)

lemma mean_fp_exact:
  "mean_fp exact_ops t c h w = (\<Sum>e\<leftarrow>[0..<batch t]. px t e c h w) / real (batch t)"
  by (simp add: mean_fp_def exact_ops_sel)

lemma direction_fp_exact:
  assumes "c < chans t" "h < height t" "w < width t"
  shows "direction_fp exact_ops t c h w = px (mean_normals t) 0 c h w"
proof -
  have m: "px (mean_dim0 t) 0 c' h w = mean_fp exact_ops t c' h w" if "c' < chans t" for c'
    using that assms(2,3) by (simp add: mean_dim0_def px_build4 mean_fp_exact)
  have n: "norm_dim1 (mean_dim0 t) 0 h w
             = fnorm exact_ops (map (\<lambda>c. mean_fp exact_ops t c h w) [0..<chans t])"
    unfolding mean_dim0_def using assms(2,3)
    by (simp add: norm_dim1_build4 exact_ops_sel comp_def mean_fp_def)
  have "px (mean_normals t) 0 c h w
          = px (mean_dim0 t) 0 c h w / max (norm_dim1 (mean_dim0 t) 0 h w) default_eps"
    unfolding mean_normals_def normalize_normals_def
    using assms by (simp add: px_build4 mean_dim0_def)
  then show ?thesis
    unfolding m [OF assms(1)] n by (simp add: direction_fp_def exact_ops_sel)
qed

lemma similarity_fp_exact:
  assumes "e < batch t" "h < height t" "w < width t"
  shows "similarity_fp exact_ops t e h w = px (sim_cos t) e 0 h w"
proof -
  have eq: "map (\<lambda>c. fmul exact_ops (direction_fp exact_ops t c h w) (px t e c h w)) [0..<chans t]
      = map (\<lambda>c. px (mean_normals t) 0 c h w * px t e c h w) [0..<chans t]"
    using assms(2,3) by (intro map_cong refl) (simp add: direction_fp_exact exact_ops_sel)
  have "similarity_fp exact_ops t e h w
      = (\<Sum>c\<leftarrow>[0..<chans t]. px (mean_normals t) 0 c h w * px t e c h w)"
    by (simp only: similarity_fp_def eq, simp only: exact_ops_sel)
  then show ?thesis using assms by (simp add: sim_cos_def px_build4)
qed

lemma similarities_exact:
  assumes "h < height t" "w < width t"
  shows "map (\<lambda>e. similarity_fp exact_ops t e h w) [0..<batch t]
       = map (\<lambda>e. px (sim_cos t) e 0 h w) [0..<batch t]"
  using assms by (intro map_cong refl) (simp add: similarity_fp_exact)

lemma closest_normals_fp_exact: "closest_normals_fp exact_ops t = closest_normals t"
  unfolding closest_normals_fp_def closest_normals_def
proof (rule build4_cong)
  fix n c h w :: nat assume "n < 1" "c < 3" and hw: "h < height t" "w < width t"
  then show "px t (argmax (map (\<lambda>e. similarity_fp exact_ops t e h w) [0..<batch t])) c h w
           = px t (px (closest_indices t) n c h w) c h w"
    unfolding similarities_exact [OF hw] by (simp add: closest_indices_def px_build4)
qed

lemma mean_normals_fp_exact: "mean_normals_fp exact_ops t = mean_normals t"
proof -
  have "mean_normals t = build4 1 (chans t) (height t) (width t)
      (\<lambda>n c h w. px (mean_normals t) n c h w)"
    unfolding mean_normals_def normalize_normals_def
    by (rule build4_cong [symmetric, THEN trans [rotated]])
       (simp_all add: mean_dim0_def px_build4)
  also have "\<dots> = mean_normals_fp exact_ops t"
    unfolding mean_normals_fp_def
    by (rule build4_cong) (simp add: direction_fp_exact)
  finally show ?thesis by simp
qed

lemma uncertainty_fp_exact: "uncertainty_fp exact_ops t = uncertainty_map t"
  unfolding uncertainty_fp_def uncertainty_map_def
proof (rule build4_cong)
  fix n c h w :: nat assume "n < 1" "c < 1" and hw: "h < height t" "w < width t"
  have eq: "map (\<lambda>e. farccos exact_ops (similarity_fp exact_ops t e h w)) [0..<batch t]
      = map (\<lambda>e. arccos (px (sim_cos t) e 0 h w)) [0..<batch t]"
    using hw by (intro map_cong refl) (simp add: similarity_fp_exact exact_ops_sel)
  show "fdiv exact_ops
        (fmean exact_ops (map (\<lambda>e. farccos exact_ops (similarity_fp exact_ops t e h w)) [0..<batch t]))
        (fconst exact_ops pi)
      = (\<Sum>e\<leftarrow>[0..<batch t]. arccos (px (sim_cos t) e 0 h w)) / real (batch t) / pi"
    by (simp only: eq, simp add: exact_ops_sel)
qed

lemma ensemble_normals_fp_exact:
  "ensemble_normals_fp exact_ops t ou r = ensemble_normals t ou r"
  by (simp add: ensemble_normals_fp_def ensemble_normals_def closest_normals_fp_exact
      mean_normals_fp_exact uncertainty_fp_exact)

section \<open>Properties of the checks of \<open>encode_prediction\<close>\<close>

lemma fl_add_inf_right: "fl_add rnd x PInf \<in> {PInf, NaN}"
  by (cases x) auto

lemma fl_add_big_left: "y \<in> {PInf, NaN} \<Longrightarrow> fl_add rnd y z \<in> {PInf, NaN}"
  by (cases z) auto

lemma foldl_add_big: "acc \<in> {PInf, NaN} \<Longrightarrow> foldl (fl_add rnd) acc xs \<in> {PInf, NaN}"
proof (induction xs arbitrary: acc)
  case Nil
  then show ?case by simp
next
  case (Cons x xs)
  from Cons.prems have "fl_add rnd acc x \<in> {PInf, NaN}" by (rule fl_add_big_left)
  then show ?case by (simp only: foldl_Cons Cons.IH)
qed

lemma fl_sum_big:
  assumes "PInf \<in> set xs"
  shows "fl_sum rnd xs \<in> {PInf, NaN}"
proof -
  from assms obtain ys zs where xs: "xs = ys @ PInf # zs"
    by (auto simp: in_set_conv_decomp)
  have "fl_add rnd (foldl (fl_add rnd) (Fin 0) ys) PInf \<in> {PInf, NaN}"
    by (rule fl_add_inf_right)
  then have "foldl (fl_add rnd) (fl_add rnd (foldl (fl_add rnd) (Fin 0) ys) PInf) zs \<in> {PInf, NaN}"
    by (rule foldl_add_big)
  then show ?thesis by (simp add: fl_sum_def xs)
qed

lemma fl_mul_inf: "x \<in> {PInf, NInf} \<Longrightarrow> fl_mul rnd x x = PInf"
  by auto

lemma unit_deviation_big:
  assumes "px t n c h w \<in> {PInf, NInf}" "c < chans t"
  shows "unit_deviation rnd t n h w \<in> {PInf, NaN}"
proof -
  let ?sq = "map (\<lambda>c. fl_mul rnd (px t n c h w) (px t n c h w)) [0..<chans t]"
  have "fl_mul rnd (px t n c h w) (px t n c h w) \<in> set ?sq"
    using assms(2) by force
  then have "PInf \<in> set ?sq" by (simp only: fl_mul_inf [OF assms(1)])
  then have "fl_sum rnd ?sq \<in> {PInf, NaN}" by (rule fl_sum_big)
  then show ?thesis by (auto simp: unit_deviation_def fl_sub_def)
qed

lemma fl_max_big: "a \<in> {PInf, NaN} \<or> b \<in> {PInf, NaN} \<Longrightarrow> fl_max a b \<in> {PInf, NaN}"
  by (cases a; cases b) (auto simp: fl_max_def)

lemma foldl_max_big:
  "acc \<in> {PInf, NaN} \<or> (\<exists>x\<in>set xs. x \<in> {PInf, NaN}) \<Longrightarrow> foldl fl_max acc xs \<in> {PInf, NaN}"
proof (induction xs arbitrary: acc)
  case Nil
  then show ?case by simp
next
  case (Cons x xs)
  from Cons.prems have "fl_max acc x \<in> {PInf, NaN} \<or> (\<exists>y\<in>set xs. y \<in> {PInf, NaN})"
    using fl_max_big [of acc x] by auto
  then have "foldl fl_max (fl_max acc x) xs \<in> {PInf, NaN}" by (rule Cons.IH)
  then show ?case by simp
qed

lemma max_all_big:
  assumes "x \<in> set xs" "x \<in> {PInf, NaN}"
  shows "\<exists>m. max_all xs = Inr m \<and> m \<in> {PInf, NaN}"
proof (cases xs)
  case Nil
  with assms(1) show ?thesis by simp
next
  case (Cons y ys)
  with assms have "y \<in> {PInf, NaN} \<or> (\<exists>z\<in>set ys. z \<in> {PInf, NaN})" by auto
  then have "foldl fl_max y ys \<in> {PInf, NaN}" by (rule foldl_max_big)
  then show ?thesis by (simp add: max_all_def Cons)
qed

lemma elems_px:
  assumes "wf_tensor t" "x \<in> set (elems t)"
  shows "\<exists>n<batch t. \<exists>c<chans t. \<exists>h<height t. \<exists>w<width t. px t n c h w = x"
proof -
  from assms(2) obtain im pl row where m: "im \<in> set (vals t)" "pl \<in> set im" "row \<in> set pl" "x \<in> set row"
    by (auto simp: elems_def)
  from m(1) obtain n where n: "n < length (vals t)" "vals t ! n = im"
    by (auto simp: in_set_conv_nth)
  from m(2) obtain c where c: "c < length im" "im ! c = pl"
    by (auto simp: in_set_conv_nth)
  from m(3) obtain h where h: "h < length pl" "pl ! h = row"
    by (auto simp: in_set_conv_nth)
  from m(4) obtain w where w: "w < length row" "row ! w = x"
    by (auto simp: in_set_conv_nth)
  from assms(1) m have "length (vals t) = batch t" "length im = chans t" "length pl = height t"
    "length row = width t"
    by (auto simp: wf_tensor_def)
  with n c h w show ?thesis by (auto simp: px_def)
qed

lemma unit_deviations_mem:
  assumes "n < batch t" "h < height t" "w < width t"
  shows "unit_deviation rnd t n h w \<in> set (unit_deviations rnd t)"
  using assms by (force simp: unit_deviations_def)

lemma not_finite_nan_cases: "\<not> isfinite x \<Longrightarrow> \<not> isnan x \<Longrightarrow> x \<in> {PInf, NInf}"
  by (cases x) auto

lemma unit_check_never_below:
  assumes "wf_tensor t" "\<not> list_ex isnan (elems t)" "\<not> list_all isfinite (elems t)"
  shows "\<exists>m. max_all (unit_deviations rnd t) = Inr m \<and> \<not> fl_lt m (Fin (1 / 1000))"
proof -
  from assms(3) obtain x where x: "x \<in> set (elems t)" "\<not> isfinite x"
    by (auto simp: list_all_iff)
  with assms(2) have "\<not> isnan x" by (auto simp: list_ex_iff)
  with x(2) have inf: "x \<in> {PInf, NInf}" by (rule not_finite_nan_cases)
  from elems_px [OF assms(1) x(1)] obtain n c h w
    where i: "n < batch t" "c < chans t" "h < height t" "w < width t" "px t n c h w = x"
    by blast
  from inf i(5) have "px t n c h w \<in> {PInf, NInf}" by simp
  then have "unit_deviation rnd t n h w \<in> {PInf, NaN}"
    using i(2) by (rule unit_deviation_big)
  from max_all_big [OF unit_deviations_mem [OF i(1,3,4)] this]
  obtain m where "max_all (unit_deviations rnd t) = Inr m" "m \<in> {PInf, NaN}" by blast
  then show ?thesis by auto
qed

lemma msgs_distinct:
  "nonunit_msg \<noteq> nan_msg" "nonunit_msg \<noteq> nonfinite_msg" "nonunit_msg \<noteq> negative_z_msg"
  by (simp_all add: nonunit_msg_def nan_msg_def nonfinite_msg_def negative_z_msg_def)

text \<open>
  C6. With \<open>check_input\<close> on, \<open>encode_prediction\<close> never raises the "Non-unit vectors
  detected" error, whatever the (well-formed) prediction, the rounding and the z-range
  flag: the comparison \<open>< 1e-3\<close> is only reached when some value is infinite and none is
  not-a-number, and then the maximum it tests is infinite or not-a-number.
\<close>

theorem non_unit_branch_unreachable:
  assumes "wf_tensor prediction"
  shows "encode_prediction rnd use_full_z_range prediction True \<noteq> Inl (ValueError nonunit_msg)"
proof (cases "chans prediction \<noteq> 3 \<or> list_ex isnan (elems prediction)
              \<or> list_all isfinite (elems prediction)")
  case True
  then show ?thesis
    using msgs_distinct by (auto simp: encode_prediction_def)
next
  case False
  then have "\<not> list_ex isnan (elems prediction)" "\<not> list_all isfinite (elems prediction)"
    by simp_all
  from unit_check_never_below [OF assms this]
  obtain m where "max_all (unit_deviations rnd prediction) = Inr m" "\<not> fl_lt m (Fin (1 / 1000))"
    by blast
  with False show ?thesis
    using msgs_distinct by (auto simp: encode_prediction_def)
qed

lemma encode_prediction_inf_input:
  "encode_prediction Fin (Some True) ex_inf_normal True = Inr ex_inf_normal"
  by (simp add: encode_prediction_def ex_inf_normal_def elems_def unit_deviations_def
      unit_deviation_def max_all_def fl_sum_def fl_sub_def px_def upt_small)

theorem non_unit_branch_unreachable_witness:
  "wf_tensor ex_inf_normal \<and>
   encode_prediction Fin (Some True) ex_inf_normal True = Inr ex_inf_normal \<and>
   encode_prediction Fin (Some True) ex_inf_normal True \<noteq> Inl (ValueError nonunit_msg)"
proof -
  have wf: "wf_tensor ex_inf_normal" by (simp add: wf_tensor_def ex_inf_normal_def)
  from non_unit_branch_unreachable [OF wf, of Fin "Some True"] wf encode_prediction_inf_input
  show ?thesis by simp
qed

text \<open>
  C5 fails on the code: for the all-finite unit normal \<open>(0, 0, 1)\<close> the check raises
  "Non-finite values detected", and for the same pixel with an infinite z-component it
  raises nothing.
\<close>

theorem encode_prediction_finite_check_inverted:
  "list_all isfinite (elems ex_unit_normal) \<and>
   encode_prediction rnd use_full_z_range ex_unit_normal True = Inl (ValueError nonfinite_msg) \<and>
   \<not> list_all isfinite (elems ex_inf_normal) \<and>
   encode_prediction Fin (Some True) ex_inf_normal True = Inr ex_inf_normal"
  by (simp add: encode_prediction_inf_input)
    (simp add: encode_prediction_def ex_unit_normal_def ex_inf_normal_def elems_def)

section \<open>Properties of image canonicalisation\<close>

lemma canonical_rank_shape:
  assumes "canonical_rank a = Inr a'" "length (shape a) = 4 \<longrightarrow> shape a ! 1 = 3"
  shows "length (shape a') = 4" and "shape a' ! 1 = 3" and "dtype a' = dtype a"
proof -
  consider (two) "length (shape a) = 2" | (three) "length (shape a) = 3"
    | (four) "length (shape a) = 4"
    using assms(1) by (auto simp: canonical_rank_def split: if_splits)
  then have "length (shape a') = 4 \<and> shape a' ! 1 = 3 \<and> dtype a' = dtype a"
  proof cases
    case two
    then obtain h w where "shape a = [h, w]"
      by (cases "shape a"; simp) (metis length_0_conv length_Suc_conv Suc_1 Suc_inject)
    with assms(1) two show ?thesis
      by (auto simp: canonical_rank_def repeat_array_def unsqueeze0_def)
  next
    case three
    then obtain c h w where s: "shape a = [c, h, w]"
      by (metis length_0_conv length_Suc_conv numeral_3_eq_3)
    with assms(1) three show ?thesis
      by (auto simp: canonical_rank_def repeat_array_def unsqueeze0_def permute_def Let_def
          split: if_splits)
  next
    case four
    with assms show ?thesis
      by (auto simp: canonical_rank_def split: if_splits)
  qed
  then show "length (shape a') = 4" and "shape a' ! 1 = 3" and "dtype a' = dtype a"
    by simp_all
qed

lemma from_numpy_checked_Inr:
  assumes "from_numpy_checked a = Inr (b, m)"
  shows "shape b = shape a" and "is_floating_point (dtype b)"
  using assms
  by (auto simp: from_numpy_checked_def is_floating_point_def split: if_splits)

text \<open>
  C3, as the code has it. For every accepted input of rank 2 or 3, and every accepted
  input of rank 4 whose channel axis has size 3, the result has rank 4 and a channel
  axis of size 3. Its element type is floating point, except for a torch \<open>uint8\<close> tensor:
  that one keeps its element type and is returned with the source maximum 255.
\<close>

theorem load_image_canonical_shape:
  assumes "load_image_canonical img = Inr (a', m)" and "input_array img = Some a"
    and "length (shape a) = 4 \<longrightarrow> shape a ! 1 = 3"
  shows "length (shape a') = 4 \<and> shape a' ! 1 = 3 \<and>
         (is_floating_point (dtype a') \<or>
          img = Tensor a \<and> dtype a = UInt8 \<and> dtype a' = UInt8 \<and> m = Some 255)"
proof -
  from assms(1) obtain b m0
    where b: "(case img of PILImage a \<Rightarrow> from_numpy_checked a
            | NdArray a \<Rightarrow> from_numpy_checked a
            | Tensor a \<Rightarrow> Inr (a, None)
            | OtherObject \<Rightarrow> Inl AttributeError) = Inr (b, m0)"
      and m: "(if \<not> is_floating_point (dtype b) \<and> m0 = None
                 then if dtype b \<noteq> UInt8 then Inl (ValueError unsupported_dtype_msg)
                      else Inr (Some 255)
                 else Inr m0) = Inr m"
      and r: "canonical_rank b = Inr a'"
    by (auto simp: load_image_canonical_def split: sum.splits prod.splits)
  have sb: "shape b = shape a"
    and db: "is_floating_point (dtype b) \<or> img = Tensor a \<and> b = a \<and> m0 = None"
    using b assms(2) by (cases img; auto dest: from_numpy_checked_Inr)+
  from assms(3) sb have "length (shape b) = 4 \<longrightarrow> shape b ! 1 = 3" by simp
  note cr = canonical_rank_shape [OF r this]
  from db m have "is_floating_point (dtype b) \<or>
      img = Tensor a \<and> dtype a = UInt8 \<and> dtype b = UInt8 \<and> m = Some 255"
    by (auto split: if_splits)
  with cr show ?thesis by simp
qed

lemma ex_rgb_canonical:
  "map_sum id (\<lambda>(a, m). (dtype a, shape a, m)) (load_image_canonical (PILImage ex_rgb_u8))
     = Inr (Float32, [1, 3, 2, 2], Some 255)"
  by (simp add: load_image_canonical_def from_numpy_checked_def canonical_rank_def ex_rgb_u8_def
      is_signed_def is_complex_def is_unsigned_def is_floating_point_def
      permute_def repeat_array_def unsqueeze0_def Let_def)

lemma ex_five_canonical:
  "load_image_canonical (Tensor ex_five_channels) = Inr (ex_five_channels, None)"
  by (simp add: load_image_canonical_def canonical_rank_def ex_five_channels_def
      is_floating_point_def)

lemma ex_gray_canonical:
  "map_sum id (\<lambda>(a, m). (dtype a, shape a, m)) (load_image_canonical (Tensor ex_gray_u8))
     = Inr (UInt8, [1, 3, 2, 2], Some 255)"
  by (simp add: load_image_canonical_def canonical_rank_def ex_gray_u8_def
      is_floating_point_def repeat_array_def unsqueeze0_def)

text \<open>
  The claim as stated fails twice: a rank-4 tensor with five channels is accepted and
  returned with its five channels, and an accepted \<open>uint8\<close> tensor is returned with an
  element type that is not floating point.
\<close>

theorem load_image_canonical_shape_counterexample:
  "(\<exists>a' m. load_image_canonical (Tensor ex_five_channels) = Inr (a', m) \<and> shape a' ! 1 = 5) \<and>
   (\<exists>a' m. load_image_canonical (Tensor ex_gray_u8) = Inr (a', m) \<and>
            \<not> is_floating_point (dtype a'))"
proof -
  have "shape ex_five_channels ! 1 = 5" by (simp add: ex_five_channels_def)
  with ex_five_canonical
  have 1: "\<exists>a' m. load_image_canonical (Tensor ex_five_channels) = Inr (a', m) \<and> shape a' ! 1 = 5"
    by blast
  from ex_gray_canonical obtain a' m
    where "load_image_canonical (Tensor ex_gray_u8) = Inr (a', m)" "dtype a' = UInt8"
    by (cases "load_image_canonical (Tensor ex_gray_u8)") auto
  then have 2: "\<exists>a' m. load_image_canonical (Tensor ex_gray_u8) = Inr (a', m) \<and>
            \<not> is_floating_point (dtype a')"
    by (auto simp: is_floating_point_def)
  from 1 2 show ?thesis by blast
qed

theorem load_image_canonical_shape_witness:
  "\<exists>a' m. load_image_canonical (PILImage ex_rgb_u8) = Inr (a', m) \<and>
      shape a' = [1, 3, 2, 2] \<and> length (shape a') = 4 \<and> shape a' ! 1 = 3 \<and>
      is_floating_point (dtype a')"
proof -
  from ex_rgb_canonical obtain a' m
    where L: "load_image_canonical (PILImage ex_rgb_u8) = Inr (a', m)"
      and S: "shape a' = [1, 3, 2, 2]"
    by (cases "load_image_canonical (PILImage ex_rgb_u8)") auto
  have "length (shape ex_rgb_u8) = 4 \<longrightarrow> shape ex_rgb_u8 ! 1 = 3"
    by (simp add: ex_rgb_u8_def)
  moreover have "input_array (PILImage ex_rgb_u8) = Some ex_rgb_u8" by simp
  ultimately have "length (shape a') = 4 \<and> shape a' ! 1 = 3 \<and>
         (is_floating_point (dtype a') \<or>
          PILImage ex_rgb_u8 = Tensor ex_rgb_u8 \<and> dtype ex_rgb_u8 = UInt8 \<and> dtype a' = UInt8 \<and>
          m = Some 255)"
    using load_image_canonical_shape [OF L] by blast
  then have "length (shape a') = 4 \<and> shape a' ! 1 = 3 \<and> is_floating_point (dtype a')"
    by simp
  with L S show ?thesis by blast
qed

section \<open>Properties of \<open>check_inputs\<close>\<close>

text \<open>Whatever its shape, a precomputed latent tensor never passes the checks.\<close>

lemma latent_checks_tensor: "latent_checks self (LatentTensor s) res E H W N \<noteq> Inr ()"
  by (auto simp: latent_checks_def Let_def split: if_splits sum.splits prod.splits)

lemma check_inputs_tensor_latent:
  "check_inputs self img steps E res rin rout bs ek (LatentTensor s) g fmt vk \<noteq> Inr ()"
  using latent_checks_tensor
  by (auto simp: check_inputs_def split: option.splits if_splits sum.splits prod.splits)

lemmas check_inputs_eval =
  ex_check_inputs_def check_inputs_def image_checks_def shape_image_checks_def
  latent_checks_def generator_checks_def ex_pipeline_def ex_image_64x96_def
  latent_size_scale_def resample_modes_def Let_def

text \<open>
  C1 fails on the code. The example call is accepted without a latent. Its expected
  latent shape is \<open>(1, 4, 6, 8)\<close>: one image and one ensemble member, four latent
  channels, and the \<open>64 \<times> 96\<close> image scaled to \<open>42 \<times> 64\<close>, then divided by 8 and rounded
  up. A latent of exactly that shape is rejected by the rank test; a latent of another
  rank passes that test and is rejected by the comparison of the shapes.
\<close>

theorem check_inputs_rejects_expected_latent:
  "ex_check_inputs NoLatent = Inr () \<and>
   ex_check_inputs (LatentTensor [1, 4, 6, 8]) = Inl (ValueError latent_dim_msg) \<and>
   ex_check_inputs (LatentTensor [4, 6, 8]) = Inl (ValueError latent_shape_msg)"
  by (simp add: check_inputs_eval)

section \<open>Order of validation and model invocations\<close>

text \<open>
  C2, as the code has it. Up to the first use of the VAE encoder a call invokes, in this
  order: nothing while \<open>check_inputs\<close> runs; the text encoder, once \<open>check_inputs\<close> has
  passed and the empty text embedding is not cached yet; and the VAE encoder only when the
  preprocessing has raised nothing. So an error of \<open>check_inputs\<close> comes before any
  collaborator is invoked, and an error of the canonicaliser, of the range check, of the
  resize or of the padding comes before the VAE, the U-Net and the scheduler, but after
  the text encoder when the embedding was not cached.
\<close>

theorem validation_errors_and_collaborators:
  "invoked (fst (call_to_first_encode F self st args)) =
     invoked st
     @ (if call_check_inputs self args = Inr () \<and> \<not> embedding_cached st then [TextEncoder] else [])
     @ (case snd (call_to_first_encode F self st args) of Inl e \<Rightarrow> [] | Inr r \<Rightarrow> [VaeEncoder])"
proof (cases "call_check_inputs self args")
  case (Inl e)
  then show ?thesis by (simp add: call_to_first_encode_def)
next
  case (Inr u)
  then have ok: "call_check_inputs self args = Inr ()" by simp
  define res where "res = (case resolve (processing_resolution args)
      (default_processing_resolution self) of Some r \<Rightarrow> r | None \<Rightarrow> 0)"
  show ?thesis
  proof (cases "preprocess F self args res")
    case (Inl e)
    then show ?thesis
      using ok by (simp add: call_to_first_encode_def res_def [symmetric])
  next
    case (Inr r)
    then show ?thesis
      using ok
      by (cases r) (simp add: call_to_first_encode_def res_def [symmetric])
  qed
qed

lemmas call_eval =
  call_to_first_encode_def call_check_inputs_def preprocess_def resolve_def
  check_inputs_def image_checks_def shape_image_checks_def latent_checks_def
  generator_checks_def load_image_canonical_def from_numpy_checked_def canonical_rank_def
  check_image_values_range_def ex_args_def ex_pipeline_def ex_fresh_def
  is_signed_def is_complex_def is_unsigned_def is_floating_point_def
  latent_size_scale_def resample_modes_def Let_def upt_small

lemma ex_out_of_range_call:
  "call_to_first_encode F ex_pipeline ex_fresh (ex_args (Tensor ex_out_of_range) 1) =
     (\<lparr>invoked = [TextEncoder], embedding_cached = True\<rparr>, Inl (ValueError range_msg))"
  by (simp add: call_eval ex_out_of_range_def)

lemma ex_signed_call:
  "call_to_first_encode F ex_pipeline ex_fresh (ex_args (NdArray ex_signed) 1) =
     (\<lparr>invoked = [TextEncoder], embedding_cached = True\<rparr>, Inl (ValueError signed_msg))"
  by (simp add: call_eval ex_signed_def)

lemma ex_ensemble_zero_call:
  "call_to_first_encode F ex_pipeline ex_fresh (ex_args (Tensor ex_out_of_range) 0) =
     (ex_fresh, Inl (ValueError ''ensemble_size must be positive.''))"
  by (simp add: call_eval ex_out_of_range_def)

text \<open>
  The claim as stated fails: on a pipeline that has not computed its empty text
  embedding, a float image holding the value 2 makes the call raise the range error after
  the text encoder has been invoked.
\<close>

theorem validation_errors_and_collaborators_counterexample:
  "call_to_first_encode F_nearest ex_pipeline ex_fresh (ex_args (Tensor ex_out_of_range) 1)
     = (\<lparr>invoked = [TextEncoder], embedding_cached = True\<rparr>, Inl (ValueError range_msg)) \<and>
   invoked ex_fresh = []"
proof -
  have "invoked ex_fresh = []" by (simp add: ex_fresh_def)
  with ex_out_of_range_call [of F_nearest] show ?thesis by (rule conjI)
qed

theorem validation_errors_and_collaborators_witness:
  "invoked (fst (call_to_first_encode F_nearest ex_pipeline ex_fresh
                   (ex_args (Tensor ex_out_of_range) 0))) = [] \<and>
   invoked (fst (call_to_first_encode F_nearest ex_pipeline ex_fresh
                   (ex_args (NdArray ex_signed) 1))) = [TextEncoder]"
proof -
  have c0: "call_check_inputs ex_pipeline (ex_args (Tensor ex_out_of_range) 0)
              = Inl (ValueError ''ensemble_size must be positive.'')"
    by (simp add: call_eval ex_out_of_range_def)
  have c1: "call_check_inputs ex_pipeline (ex_args (NdArray ex_signed) 1) = Inr ()"
    by (simp add: call_eval ex_signed_def)
  have 0: "invoked (fst (call_to_first_encode F_nearest ex_pipeline ex_fresh
                   (ex_args (Tensor ex_out_of_range) 0))) = []"
    using validation_errors_and_collaborators
      [of F_nearest ex_pipeline ex_fresh "ex_args (Tensor ex_out_of_range) 0"]
    by (simp add: c0 ex_ensemble_zero_call) (simp add: ex_fresh_def)
  have 1: "invoked (fst (call_to_first_encode F_nearest ex_pipeline ex_fresh
                   (ex_args (NdArray ex_signed) 1))) = [TextEncoder]"
    using validation_errors_and_collaborators
      [of F_nearest ex_pipeline ex_fresh "ex_args (NdArray ex_signed) 1"]
    by (simp add: c1 ex_signed_call) 
  from 0 1 show ?thesis by simp
qed

end
